theory Spec2Isabelle
  imports Complex_Main
begin

section \<open>JavaScript values used by the calculator\<close>

text \<open>
  A JavaScript \<open>number\<close> is modelled as an exact rational or \<open>NaN\<close>. Rounding and the
  two infinities of IEEE-754 arithmetic are outside the model: arithmetic on finite
  values is exact, and anything involving \<open>NaN\<close> is \<open>NaN\<close>.
\<close>

datatype number = Finite rat | NaN

fun isNaN :: "number \<Rightarrow> bool" where
  "isNaN NaN = True"
| "isNaN (Finite _) = False"

fun minus_number :: "number \<Rightarrow> number \<Rightarrow> number" where
  "minus_number (Finite a) (Finite b) = Finite (a - b)"
| "minus_number _ _ = NaN"

fun plus_number :: "number \<Rightarrow> number \<Rightarrow> number" where
  "plus_number (Finite a) (Finite b) = Finite (a + b)"
| "plus_number _ _ = NaN"

fun times_number :: "number \<Rightarrow> number \<Rightarrow> number" where
  "times_number (Finite a) (Finite b) = Finite (a * b)"
| "times_number _ _ = NaN"

text \<open>
  Division by zero gives an infinity or \<open>NaN\<close> in JavaScript. The model has no
  infinities and answers \<open>NaN\<close>; every division of the modelled code sits behind a
  test \<open>revenue !== 0\<close>.
\<close>

fun divide_number :: "number \<Rightarrow> number \<Rightarrow> number" where
  "divide_number (Finite a) (Finite b) = (if b = 0 then NaN else Finite (a / b))"
| "divide_number _ _ = NaN"

fun abs_number :: "number \<Rightarrow> number" where
  "abs_number (Finite a) = Finite \<bar>a\<bar>"
| "abs_number NaN = NaN"

fun greater_number :: "number \<Rightarrow> number \<Rightarrow> bool" where
  "greater_number (Finite a) (Finite b) = (a > b)"
| "greater_number _ _ = False"

text \<open>
  A raw indicator value is a number or a string; \<open>RNull\<close> is the JSON \<open>null\<close> that the
  declared type \<open>number | string | undefined\<close> leaves out but the code tests for.
  A missing key (\<open>undefined\<close>) is \<open>None\<close> in the map.
\<close>

datatype raw = RNum number | RStr string | RNull

type_synonym RawFinancialData = "string \<rightharpoonup> raw"

section \<open>The derived-metrics calculator (calculator.ts)\<close>

record CalculatedMetrics =
  Revenue :: "number option"
  Contribution :: "number option"
  OpEBITDA :: "number option"
  OpEBITDApct :: "number option"
  OpEBIT :: "number option"
  OpEBITpct :: "number option"
  OpPBT :: "number option"
  PBT :: "number option"

datatype severity = Warning | Error

record ValidationIssue =
  metric :: string
  issue :: string
  severity :: severity
  expected :: "number option"
  actual :: "number option"

text \<open>
  Two built-ins of the language are parameters of the model, grouped in a record:
  \<open>parseFloat\<close> (\<open>NaN\<close> when the text does not start with a number) and
  \<open>Number.prototype.toFixed(2)\<close>, which only formats a message.
\<close>

record builtins =
  parseFloat :: "string \<Rightarrow> number"
  toFixed2 :: "number \<Rightarrow> string"

text \<open>\<open>toNumber\<close>: \<open>None\<close> is the \<open>null\<close> the source returns.\<close>

definition toNumber :: "builtins \<Rightarrow> raw option \<Rightarrow> number option" where
  "toNumber js v =
     (case v of
        None \<Rightarrow> None
      | Some RNull \<Rightarrow> None
      | Some (RStr s) \<Rightarrow>
          (if s = ''--'' \<or> s = ''NA'' \<or> s = '''' then None
           else (let num = parseFloat js (filter (\<lambda>c. c \<noteq> CHR '','') s)
                 in if isNaN num then None else Some num))
      | Some (RNum n) \<Rightarrow> Some n)"

text \<open>
  \<open>isAvailable\<close> is also applied to fields of \<open>calculated\<close> that may still be
  \<open>undefined\<close>; \<open>isNaN(undefined)\<close> is true, so \<open>None\<close> covers both \<open>null\<close> and
  \<open>undefined\<close>.
\<close>

definition isAvailable :: "number option \<Rightarrow> bool" where
  "isAvailable v = (case v of None \<Rightarrow> False | Some n \<Rightarrow> \<not> isNaN n)"

text \<open>The nullish-coalescing operator \<open>a ?? b\<close>.\<close>

definition nullish :: "'a option \<Rightarrow> 'a option \<Rightarrow> 'a option" where
  "nullish a b = (case a of None \<Rightarrow> b | Some x \<Rightarrow> Some x)"

text \<open>
  The body of \<open>calculateDerivedMetrics\<close> mutates \<open>calculated\<close> and \<open>issues\<close> block by
  block. Each block is a transformer of the pair, in the order of the source.
\<close>

record calc_state =
  calculated :: CalculatedMetrics
  issues :: "ValidationIssue list"

definition mkIssue :: "string \<Rightarrow> string \<Rightarrow> severity \<Rightarrow> ValidationIssue" where
  "mkIssue m i s = \<lparr>metric = m, issue = i, severity = s, expected = None, actual = None\<rparr>"

definition pushIssue :: "ValidationIssue \<Rightarrow> calc_state \<Rightarrow> calc_state" where
  "pushIssue i st = st\<lparr>issues := issues st @ [i]\<rparr>"

definition blockContribution :: "builtins \<Rightarrow> RawFinancialData \<Rightarrow> calc_state \<Rightarrow> calc_state" where
  "blockContribution js rawData st =
     (let totalIncome = toNumber js (rawData ''Total Income From Operations'');
          purchaseTraded = toNumber js (rawData ''Purchase of Traded Goods'');
          stockChange = toNumber js (rawData ''Increase / Decrease in Stocks'')
      in if isAvailable totalIncome then
           (let purchase = (if isAvailable purchaseTraded then the purchaseTraded else Finite 0);
                stock = (if isAvailable stockChange then the stockChange else Finite 0)
            in st\<lparr>calculated := (calculated st)
                 \<lparr>Contribution := Some (minus_number (minus_number (the totalIncome) purchase) stock)\<rparr>\<rparr>)
         else pushIssue (mkIssue ''Contribution'' ''Total Income From Operations is missing'' Error) st)"

definition blockOpEBITDA :: "builtins \<Rightarrow> RawFinancialData \<Rightarrow> calc_state \<Rightarrow> calc_state" where
  "blockOpEBITDA js rawData st =
     (let employeeCost = toNumber js (rawData ''Employees Cost'');
          otherExpenses = toNumber js (rawData ''Other Expenses'')
      in if isAvailable (Contribution (calculated st)) \<and> isAvailable employeeCost
            \<and> isAvailable otherExpenses then
           st\<lparr>calculated := (calculated st)
             \<lparr>OpEBITDA := Some (minus_number
                 (minus_number (the (Contribution (calculated st))) (the employeeCost))
                 (the otherExpenses))\<rparr>\<rparr>
         else
           (let rawOpEbitda = nullish (toNumber js (rawData ''Op. EBITDA''))
                                      (toNumber js (rawData ''Operating Profit''))
            in if isAvailable rawOpEbitda then
                 st\<lparr>calculated := (calculated st)\<lparr>OpEBITDA := rawOpEbitda\<rparr>\<rparr>
               else pushIssue (mkIssue ''Op. EBITDA''
                 ''Missing required fields: Employees Cost, Other Expenses (and no direct Op. EBITDA found)''
                 Error) st))"

text \<open>
  The first percentage blocks (lines 124-127 and 140-143 of the source) read
  \<open>calculated.Revenue\<close> before any assignment to it.
\<close>

definition blockOpEBITDApctEarly :: "calc_state \<Rightarrow> calc_state" where
  "blockOpEBITDApctEarly st =
     (if isAvailable (OpEBITDA (calculated st)) \<and> isAvailable (Revenue (calculated st))
         \<and> Revenue (calculated st) \<noteq> Some (Finite 0) then
        st\<lparr>calculated := (calculated st)
          \<lparr>OpEBITDApct := Some (times_number
              (divide_number (the (OpEBITDA (calculated st))) (the (Revenue (calculated st))))
              (Finite 100))\<rparr>\<rparr>
      else st)"

definition blockOpEBIT :: "builtins \<Rightarrow> RawFinancialData \<Rightarrow> calc_state \<Rightarrow> calc_state" where
  "blockOpEBIT js rawData st =
     (let depreciation = toNumber js (rawData ''Depreciation'')
      in if isAvailable (OpEBITDA (calculated st)) \<and> isAvailable depreciation then
           st\<lparr>calculated := (calculated st)
             \<lparr>OpEBIT := Some (minus_number (the (OpEBITDA (calculated st))) (the depreciation))\<rparr>\<rparr>
         else pushIssue (mkIssue ''Op. EBIT'' ''Missing Op. EBITDA or Depreciation'' Warning) st)"

definition blockOpEBITpctEarly :: "calc_state \<Rightarrow> calc_state" where
  "blockOpEBITpctEarly st =
     (if isAvailable (OpEBIT (calculated st)) \<and> isAvailable (Revenue (calculated st))
         \<and> Revenue (calculated st) \<noteq> Some (Finite 0) then
        st\<lparr>calculated := (calculated st)
          \<lparr>OpEBITpct := Some (times_number
              (divide_number (the (OpEBIT (calculated st))) (the (Revenue (calculated st))))
              (Finite 100))\<rparr>\<rparr>
      else st)"

definition blockOpPBT :: "builtins \<Rightarrow> RawFinancialData \<Rightarrow> calc_state \<Rightarrow> calc_state" where
  "blockOpPBT js rawData st =
     (let interest = toNumber js (rawData ''Interest'')
      in if isAvailable (OpEBIT (calculated st)) \<and> isAvailable interest then
           st\<lparr>calculated := (calculated st)
             \<lparr>OpPBT := Some (minus_number (the (OpEBIT (calculated st))) (the interest))\<rparr>\<rparr>
         else pushIssue (mkIssue ''Op. PBT'' ''Missing Op. EBIT or Interest'' Warning) st)"

definition blockPBT :: "builtins \<Rightarrow> RawFinancialData \<Rightarrow> calc_state \<Rightarrow> calc_state" where
  "blockPBT js rawData st =
     (let otherIncome = toNumber js (rawData ''Other Income'')
      in if isAvailable (OpPBT (calculated st)) \<and> isAvailable otherIncome then
           st\<lparr>calculated := (calculated st)
             \<lparr>PBT := Some (plus_number (the (OpPBT (calculated st))) (the otherIncome))\<rparr>\<rparr>
         else
           (let rawPBT = nullish (toNumber js (rawData ''P/L Before Tax''))
                                 (toNumber js (rawData ''Profit before tax''))
            in if isAvailable rawPBT then
                 st\<lparr>calculated := (calculated st)\<lparr>PBT := rawPBT\<rparr>\<rparr>
               else pushIssue (mkIssue ''PBT''
                 ''Missing Op. PBT or Other Income (and no direct PBT found)'' Error) st))"

definition revenueKeys :: "string list" where
  "revenueKeys =
     [''Net Sales / Income from Operations'', ''Revenue'', ''Net Sales'', ''Sales'',
      ''Income'', ''Total Income From Operations'']"

text \<open>The loop over \<open>revenueKeys\<close> with its \<open>break\<close>: the first available value.\<close>

fun firstAvailable :: "builtins \<Rightarrow> RawFinancialData \<Rightarrow> string list \<Rightarrow> number option" where
  "firstAvailable js rawData [] = None"
| "firstAvailable js rawData (key # keys) =
     (let val = toNumber js (rawData key)
      in if isAvailable val then val else firstAvailable js rawData keys)"

definition blockRevenue :: "builtins \<Rightarrow> RawFinancialData \<Rightarrow> calc_state \<Rightarrow> calc_state" where
  "blockRevenue js rawData st =
     (let netSales = firstAvailable js rawData revenueKeys
      in if isAvailable netSales then st\<lparr>calculated := (calculated st)\<lparr>Revenue := netSales\<rparr>\<rparr>
         else st)"

text \<open>
  The second percentage blocks test \<open>!== undefined\<close> and \<open>!== 0\<close> only; the \<open>else\<close>
  branches log a warning and change nothing.
\<close>

definition blockOpEBITDApct :: "calc_state \<Rightarrow> calc_state" where
  "blockOpEBITDApct st =
     (let revenue = Revenue (calculated st);
          opEBITDAValue = OpEBITDA (calculated st)
      in if revenue \<noteq> None \<and> revenue \<noteq> Some (Finite 0) \<and> opEBITDAValue \<noteq> None then
           st\<lparr>calculated := (calculated st)
             \<lparr>OpEBITDApct := Some (times_number
                 (divide_number (the opEBITDAValue) (the revenue)) (Finite 100))\<rparr>\<rparr>
         else st)"

definition blockOpEBITpct :: "calc_state \<Rightarrow> calc_state" where
  "blockOpEBITpct st =
     (let revenue = Revenue (calculated st);
          opEBITValue = OpEBIT (calculated st)
      in if revenue \<noteq> None \<and> revenue \<noteq> Some (Finite 0) \<and> opEBITValue \<noteq> None then
           st\<lparr>calculated := (calculated st)
             \<lparr>OpEBITpct := Some (times_number
                 (divide_number (the opEBITValue) (the revenue)) (Finite 100))\<rparr>\<rparr>
         else st)"

text \<open>
  The cross-check against the reported pre-tax profit. The message of the source
  starts with the rupee sign, written here as its three UTF-8 bytes.
\<close>

definition blockValidatePBT :: "builtins \<Rightarrow> RawFinancialData \<Rightarrow> calc_state \<Rightarrow> calc_state" where
  "blockValidatePBT js rawData st =
     (let pbtRaw = toNumber js (rawData ''P/L Before Tax'');
          calculatedPBT = PBT (calculated st)
      in if calculatedPBT \<noteq> None \<and> isAvailable pbtRaw then
           (let difference = abs_number (minus_number (the calculatedPBT) (the pbtRaw))
            in if greater_number difference (Finite 1) then
                 pushIssue
                   \<lparr>metric = ''PBT'',
                    issue = ''Calculated PBT differs from MoneyControl value by ''
                      @ [CHR 0xE2, CHR 0x82, CHR 0xB9] @ toFixed2 js difference @ '' Cr'',
                    severity = Warning, expected = pbtRaw, actual = PBT (calculated st)\<rparr> st
               else st)
         else st)"

definition emptyMetrics :: CalculatedMetrics where
  "emptyMetrics =
     \<lparr>Revenue = None, Contribution = None, OpEBITDA = None, OpEBITDApct = None,
      OpEBIT = None, OpEBITpct = None, OpPBT = None, PBT = None\<rparr>"

definition calculateDerivedMetrics :: "builtins \<Rightarrow> RawFinancialData \<Rightarrow> calc_state" where
  "calculateDerivedMetrics js rawData =
     (blockValidatePBT js rawData
       (blockOpEBITpct
         (blockOpEBITDApct
           (blockRevenue js rawData
             (blockPBT js rawData
               (blockOpPBT js rawData
                 (blockOpEBITpctEarly
                   (blockOpEBIT js rawData
                     (blockOpEBITDApctEarly
                       (blockOpEBITDA js rawData
                         (blockContribution js rawData
                           \<lparr>calculated = emptyMetrics, issues = []\<rparr>)))))))))))"

section \<open>Strings\<close>

text \<open>
  Strings are sequences of 8-bit characters; labels are read as ASCII text. The
  string methods below act on ASCII letters and ASCII white space and leave every
  other character alone.
\<close>

definition isDigit :: "char \<Rightarrow> bool" where
  "isDigit c = (c \<in> set ''0123456789'')"

definition isUpper :: "char \<Rightarrow> bool" where
  "isUpper c = (c \<in> set ''ABCDEFGHIJKLMNOPQRSTUVWXYZ'')"

definition isLower :: "char \<Rightarrow> bool" where
  "isLower c = (c \<in> set ''abcdefghijklmnopqrstuvwxyz'')"

definition isLetter :: "char \<Rightarrow> bool" where
  "isLetter c = (isUpper c \<or> isLower c)"

definition isSpace :: "char \<Rightarrow> bool" where
  "isSpace c = (c \<in> set [CHR '' '', CHR 0x09, CHR 0x0A, CHR 0x0B, CHR 0x0C, CHR 0x0D])"

definition toLowerChar :: "char \<Rightarrow> char" where
  "toLowerChar c =
     (case map_of (zip ''ABCDEFGHIJKLMNOPQRSTUVWXYZ'' ''abcdefghijklmnopqrstuvwxyz'') c of
        Some l \<Rightarrow> l
      | None \<Rightarrow> c)"

definition toLowerCase :: "string \<Rightarrow> string" where
  "toLowerCase s = map toLowerChar s"

definition trim :: "string \<Rightarrow> string" where
  "trim s = rev (dropWhile isSpace (rev (dropWhile isSpace s)))"

definition digitVal :: "char \<Rightarrow> nat" where
  "digitVal c = (case map_of (zip ''0123456789'' [0, 1, 2, 3, 4, 5, 6, 7, 8, 9]) c of
                   Some n \<Rightarrow> n | None \<Rightarrow> 0)"

definition digitChar :: "nat \<Rightarrow> char" where
  "digitChar n = ''0123456789'' ! (n mod 10)"

text \<open>\<open>Number.prototype.toString\<close> on a non-negative integer: its decimal digits.\<close>

fun natToString :: "nat \<Rightarrow> string" where
  "natToString n = (if n < 10 then [digitChar n] else natToString (n div 10) @ [digitChar n])"

declare natToString.simps [simp del]

text \<open>
  An integer-valued number or \<open>NaN\<close> (\<open>None\<close>), as \<open>parseInt\<close> returns it. Integers
  are exact in the model; JavaScript rounds beyond \<open>2^53\<close> and prints in exponent
  notation from \<open>10^21\<close>.
\<close>

definition intToString :: "int option \<Rightarrow> string" where
  "intToString v =
     (case v of
        None \<Rightarrow> ''NaN''
      | Some i \<Rightarrow> (if i < 0 then CHR ''-'' # natToString (nat (- i)) else natToString (nat i)))"

text \<open>\<open>s.slice(-2)\<close>: the last two characters, or all of \<open>s\<close> when it is shorter.\<close>

definition sliceLast2 :: "string \<Rightarrow> string" where
  "sliceLast2 s = drop (length s - 2) s"

text \<open>
  Property lookup \<open>obj[key]\<close> on an object literal: an own property, else a member
  inherited from \<open>Object.prototype\<close> (a function or object, hence truthy), else
  \<open>undefined\<close>.
\<close>

datatype 'a property = Own 'a | Inherited string | Undefined

definition objectPrototypeKeys :: "string list" where
  "objectPrototypeKeys =
     [''constructor'', ''__defineGetter__'', ''__defineSetter__'', ''hasOwnProperty'',
      ''__lookupGetter__'', ''__lookupSetter__'', ''isPrototypeOf'', ''propertyIsEnumerable'',
      ''toString'', ''valueOf'', ''__proto__'', ''toLocaleString'']"

definition getProperty :: "(string \<times> 'a) list \<Rightarrow> string \<Rightarrow> 'a property" where
  "getProperty obj key =
     (case map_of obj key of
        Some v \<Rightarrow> Own v
      | None \<Rightarrow> if key \<in> set objectPrototypeKeys then Inherited key else Undefined)"

section \<open>The MoneyControl scraper's helpers (moneyControlScraper.ts)\<close>

subsection \<open>parseQuarterHeader\<close>

definition monthMap :: "(string \<times> string \<times> nat) list" where
  "monthMap =
     [(''jan'', ''Q3'', 0), (''feb'', ''Q3'', 0), (''mar'', ''Q4'', 0),
      (''apr'', ''Q1'', 1), (''may'', ''Q1'', 1), (''jun'', ''Q1'', 1), (''june'', ''Q1'', 1),
      (''jul'', ''Q2'', 1), (''aug'', ''Q2'', 1), (''sep'', ''Q2'', 1),
      (''oct'', ''Q3'', 1), (''nov'', ''Q3'', 1), (''dec'', ''Q3'', 1)]"

text \<open>
  The regular expression \<open>/([a-zA-Z]+)\s*'?(\d{2})/i\<close>. \<open>headerTail\<close> matches
  \<open>\s*'?(\d{2})\<close> at the start of its argument. A shorter run of letters, less white
  space or an unconsumed apostrophe leaves a character that \<open>\d\<close> rejects, so the
  greedy choice is the only one that can succeed at a given start position.
\<close>

definition headerTail :: "string \<Rightarrow> (char \<times> char) option" where
  "headerTail s =
     (let s1 = dropWhile isSpace s;
          s2 = (case s1 of [] \<Rightarrow> s1 | c # t \<Rightarrow> if c = CHR 0x27 then t else s1)
      in case s2 of
           d1 # d2 # _ \<Rightarrow> if isDigit d1 \<and> isDigit d2 then Some (d1, d2) else None
         | _ \<Rightarrow> None)"

definition headerMatchAt :: "string \<Rightarrow> (string \<times> char \<times> char) option" where
  "headerMatchAt s =
     (let letters = takeWhile isLetter s
      in if letters = [] then None
         else (case headerTail (dropWhile isLetter s) of
                 None \<Rightarrow> None
               | Some (d1, d2) \<Rightarrow> Some (letters, d1, d2)))"

text \<open>\<open>header.match(...)\<close>: the match at the leftmost start position that has one.\<close>

fun headerMatch :: "string \<Rightarrow> (string \<times> char \<times> char) option" where
  "headerMatch [] = None"
| "headerMatch (c # cs) =
     (case headerMatchAt (c # cs) of
        Some m \<Rightarrow> Some m
      | None \<Rightarrow> headerMatch cs)"

text \<open>
  The result record; \<open>hdr_quarter\<close> is \<open>None\<close> for \<open>undefined\<close>, which arises when the
  month lookup returns an inherited member: then \<open>monthInfo.quarter\<close> and
  \<open>monthInfo.fyOffset\<close> are \<open>undefined\<close> and the fiscal year is \<open>NaN\<close>.
\<close>

record ParsedHeader =
  hdr_quarter :: "string option"
  hdr_fiscalYear :: string
  hdr_period :: string

definition parseQuarterHeader :: "string \<Rightarrow> ParsedHeader" where
  "parseQuarterHeader header =
     (case headerMatch header of
        Some (m, d1, d2) \<Rightarrow>
          (let month = toLowerCase m;
               year = 2000 + digitVal d1 * 10 + digitVal d2
           in case getProperty monthMap month of
                Own (q, fyOffset) \<Rightarrow>
                  (let fiscalYear = year + fyOffset;
                       fyShort = sliceLast2 (natToString fiscalYear)
                   in \<lparr>hdr_quarter = Some q,
                       hdr_fiscalYear = ''FY'' @ natToString fiscalYear,
                       hdr_period = q @ [CHR 0x27] @ fyShort\<rparr>)
              | Inherited _ \<Rightarrow>
                  \<lparr>hdr_quarter = None,
                   hdr_fiscalYear = ''FYNaN'',
                   hdr_period = ''undefined'' @ [CHR 0x27] @ sliceLast2 ''NaN''\<rparr>
              | Undefined \<Rightarrow>
                  \<lparr>hdr_quarter = Some header, hdr_fiscalYear = '''', hdr_period = header\<rparr>)
      | None \<Rightarrow> \<lparr>hdr_quarter = Some header, hdr_fiscalYear = '''', hdr_period = header\<rparr>)"

subsection \<open>normalizeIndicatorName\<close>

definition mapping :: "(string \<times> string) list" where
  "mapping =
     [(''net sales/income from operations'', ''Net Sales / Income from Operations''),
      (''net sales / income from operations'', ''Net Sales / Income from Operations''),
      (''revenue from operations'', ''Net Sales / Income from Operations''),
      (''total income from operations'', ''Total Income From Operations''),
      (''other operating income'', ''Other Operating Income''),
      (''employees cost'', ''Employees Cost''),
      (''employee benefit expenses'', ''Employees Cost''),
      (''depreciation'', ''Depreciation''),
      (''depreciation and amortisation expenses'', ''Depreciation''),
      (''other expenses'', ''Other Expenses''),
      (''other income'', ''Other Income''),
      (''interest'', ''Interest''),
      (''finance costs'', ''Interest''),
      (''p/l before other inc., int., excpt. items & tax'',
         ''P/L Before Other Inc., Int., Excpt. Items & Tax''),
      (''p/l before int., excpt. items & tax'', ''P/L Before Int., Excpt. Items & Tax''),
      (''p/l before exceptional items & tax'', ''P/L Before Exceptional Items & Tax''),
      (''exceptional items'', ''Exceptional Items''),
      (''p/l before tax'', ''P/L Before Tax''),
      (''profit before tax'', ''P/L Before Tax''),
      (''tax'', ''Tax''),
      (''tax expenses'', ''Tax''),
      (''p/l after tax from ordinary activities'', ''P/L After Tax from Ordinary Activities''),
      (''profit after tax'', ''P/L After Tax from Ordinary Activities''),
      (''net profit/(loss) for the period'', ''Net Profit / (Loss) for the Period''),
      (''net profit / (loss) for the period'', ''Net Profit / (Loss) for the Period''),
      (''net profit'', ''Net Profit / (Loss) for the Period''),
      (''minority interest'', ''Minority Interest''),
      (''net p/l after m.i & associates'', ''Net P/L After MI & Associates''),
      (''basic eps'', ''Basic EPS''),
      (''diluted eps'', ''Diluted EPS''),
      (''purchase of traded goods'', ''Purchase of Traded Goods''),
      (''increase/decrease in stocks'', ''Increase / Decrease in Stocks''),
      (''consumption of raw materials'', ''Consumption of Raw Materials''),
      (''power & fuel'', ''Power & Fuel''),
      (''excise duty'', ''Excise Duty''),
      (''admin. and selling expenses'', ''Admin. And Selling Expenses''),
      (''r & d expenses'', ''R & D Expenses''),
      (''provisions and contingencies'', ''Provisions And Contingencies''),
      (''exp. capitalised'', ''Exp. Capitalised''),
      (''net interest income'', ''Net Interest Income''),
      (''interest income'', ''Interest Income''),
      (''interest earned'', ''Interest Income''),
      (''interest expended'', ''Interest Expended''),
      (''interest expense'', ''Interest Expended''),
      (''fee income'', ''Fee Income''),
      (''total income'', ''Total Income''),
      (''operating expenses'', ''Operating Expenses''),
      (''employee expenses'', ''Employees Cost''),
      (''provisions'', ''Provisions''),
      (''provisions for bad debts'', ''Provisions''),
      (''provision for npa'', ''Provisions''),
      (''operating profit'', ''Operating Profit''),
      (''profit before provisions'', ''Profit Before Provisions''),
      (''net profit after tax'', ''Net Profit / (Loss) for the Period''),
      (''total assets'', ''Total Assets''),
      (''total deposits'', ''Total Deposits''),
      (''total advances'', ''Total Advances''),
      (''gross npa'', ''Gross NPA''),
      (''net npa'', ''Net NPA''),
      (''casa ratio'', ''CASA Ratio''),
      (''net interest margin'', ''Net Interest Margin''),
      (''nim'', ''Net Interest Margin'')]"

text \<open>
  \<open>mapping[lowerName] || name\<close>. The declared result type is \<open>string\<close>; at run time
  the lookup can also return a member of \<open>Object.prototype\<close>, which is truthy and is
  returned as it is.
\<close>

datatype normalized = Label string | ObjectMember string

definition normalizeIndicatorName :: "string \<Rightarrow> normalized" where
  "normalizeIndicatorName name =
     (let lowerName = trim (toLowerCase name)
      in case getProperty mapping lowerName of
           Own v \<Rightarrow> if v \<noteq> '''' then Label v else Label name
         | Inherited k \<Rightarrow> ObjectMember k
         | Undefined \<Rightarrow> Label name)"

section \<open>The Screener scraper's period conversion (screenerScraper.ts)\<close>

text \<open>\<open>s.split(' ')\<close>: the pieces between single spaces, at least one piece.\<close>

fun splitSpace :: "string \<Rightarrow> string list" where
  "splitSpace [] = [] # []"
| "splitSpace (c # cs) =
     (if c = CHR '' '' then [] # splitSpace cs
      else (case splitSpace cs of
              [] \<Rightarrow> [c] # []
            | p # ps \<Rightarrow> (c # p) # ps))"

fun digitsValue :: "nat \<Rightarrow> string \<Rightarrow> nat" where
  "digitsValue acc [] = acc"
| "digitsValue acc (d # ds) = digitsValue (acc * 10 + digitVal d) ds"

text \<open>
  \<open>parseInt(s, 10)\<close>: leading white space, an optional sign, then the longest run of
  decimal digits; \<open>None\<close> is \<open>NaN\<close>.
\<close>

definition parseInt10 :: "string \<Rightarrow> int option" where
  "parseInt10 s =
     (let s1 = dropWhile isSpace s;
          negative = (case s1 of [] \<Rightarrow> False | c # _ \<Rightarrow> c = CHR ''-'');
          s2 = (case s1 of [] \<Rightarrow> [] | c # t \<Rightarrow> if c = CHR ''-'' \<or> c = CHR ''+'' then t else s1);
          ds = takeWhile isDigit s2
      in if ds = [] then None
         else Some (if negative then - int (digitsValue 0 ds) else int (digitsValue 0 ds)))"

definition screenerMonthMap :: "(string \<times> nat \<times> nat) list" where
  "screenerMonthMap =
     [(''Jan'', 4, 0), (''Feb'', 4, 0), (''Mar'', 4, 0),
      (''Apr'', 1, 1), (''May'', 1, 1), (''Jun'', 1, 1),
      (''Jul'', 2, 1), (''Aug'', 2, 1), (''Sep'', 2, 1),
      (''Oct'', 3, 1), (''Nov'', 3, 1), (''Dec'', 3, 1)]"

text \<open>
  With an inherited member as \<open>mapping\<close>, both \<open>mapping.quarter\<close> and
  \<open>mapping.fyOffset\<close> are \<open>undefined\<close>, the fiscal year is \<open>NaN\<close> and the template
  prints \<open>undefined\<close>.
\<close>

definition convertToFiscalQuarter :: "string \<Rightarrow> string" where
  "convertToFiscalQuarter screenerDate =
     (let parts = splitSpace (trim screenerDate)
      in if length parts \<noteq> 2 then screenerDate
         else
           (let month = parts ! 0;
                year = parseInt10 (parts ! 1)
            in case getProperty screenerMonthMap month of
                 Undefined \<Rightarrow> screenerDate
               | Inherited _ \<Rightarrow> ''Qundefined'' @ [CHR 0x27] @ sliceLast2 (intToString None)
               | Own (q, fyOffset) \<Rightarrow>
                   (let fiscalYear = map_option (\<lambda>y. y + int fyOffset) year;
                        fyShort = sliceLast2 (intToString fiscalYear)
                    in ''Q'' @ natToString q @ [CHR 0x27] @ fyShort)))"

section \<open>The fallback orchestrator (scrapingOrchestrator.ts)\<close>

subsection \<open>Data\<close>

record Company =
  name :: string
  url :: string
  moneyControlUrl :: string

text \<open>
  \<open>QuarterlyData\<close> (MoneyControl), \<open>QuarterData\<close> (Screener) and the quarters of a
  \<open>CompanyQuarterlyData\<close> share the fields \<open>quarter\<close> and \<open>period\<close>.
\<close>

record QuarterLabel =
  quarter :: string
  period :: string

record QuarterlyData = QuarterLabel +
  indicators :: RawFinancialData

record QuarterData = QuarterLabel +
  rawData :: RawFinancialData

record ProcessedQuarter = QuarterData +
  calculatedMetrics :: CalculatedMetrics

datatype DataSource = Screener | MoneyControl | Perplexity | PerplexityUrl

record CompanyQuarterlyData =
  companyName :: string
  dataSource :: DataSource
  quarters :: "ProcessedQuarter list"

record ErrorEntry =
  company :: string
  error :: string
  timestamp :: nat

subsection \<open>The environment\<close>

text \<open>
  The three network adapters, the spreadsheet generator and the clock are the
  environment of a run. An adapter answers as a function of its arguments; \<open>Inl e\<close>
  is a thrown error, \<open>e\<close> being the text \<open>String(error)\<close>. \<open>scrapeScreener\<close> is
  represented by the \<open>quarters\<close> field of its result, the only one the orchestrator
  reads. \<open>dateNow i\<close> is the value of \<open>Date.now()\<close> when the error entry of the company at
  index \<open>i\<close> is written (index \<open>length companies\<close> for the spreadsheet entry).

  Every adapter call is recorded in a trace.
\<close>

datatype call =
    ScrapeScreener string
  | ScrapeMoneyControl string nat string
  | GetMoneyControlUrlFromPerplexity string

record env =
  scrapeScreener :: "string \<Rightarrow> string + QuarterData list"
  scrapeMoneyControl :: "string \<Rightarrow> nat \<Rightarrow> string \<Rightarrow> string + QuarterlyData list"
  getMoneyControlUrlFromPerplexity :: "string \<Rightarrow> string + string option"
  generateOutputExcel :: "CompanyQuarterlyData list \<Rightarrow> string + string"
  dateNow :: "nat \<Rightarrow> nat"
  js :: builtins

text \<open>
  The progress sink \<open>updateScrapingJob\<close> belongs to the module \<open>db\<close>, which is not
  among the sources; following the specification it accepts every overwrite of the
  progress snapshot and never throws. With the \<open>onProgress\<close> callback, the log lines,
  the \<open>companyDetails\<close> shown to the user and the delay between companies it has no
  influence on the data flow below and is left out of the state. The parameter
  \<open>jobId\<close> only addresses the sink and is left out as well.
\<close>

subsection \<open>hasValidData\<close>

definition profitKeys :: "string list" where
  "profitKeys =
     [''Net Profit / (Loss) for the Period'', ''Net Profit'', ''Profit'', ''PAT'', ''Net_Profit'']"

definition validRevenueKeys :: "string list" where
  "validRevenueKeys =
     [''Net Sales / Income from Operations'', ''Revenue'', ''Net Sales'', ''Sales'', ''Income'']"

text \<open>\<open>val !== undefined && val !== '--' && val !== null\<close>\<close>

definition isPresent :: "raw option \<Rightarrow> bool" where
  "isPresent val = (val \<noteq> None \<and> val \<noteq> Some (RStr ''--'') \<and> val \<noteq> Some RNull)"

fun hasValidData :: "QuarterlyData list \<Rightarrow> bool" where
  "hasValidData [] = False"
| "hasValidData (q # qs) =
     (let hasRevenue = list_ex (\<lambda>key. isPresent (indicators q key)) validRevenueKeys;
          hasProfit = list_ex (\<lambda>key. isPresent (indicators q key)) profitKeys
      in if hasRevenue \<or> hasProfit then True else hasValidData qs)"

subsection \<open>The quarter filter\<close>

text \<open>
  \<open>q.period.match(/Q(\d)'(\d{2})/)\<close>: the leftmost occurrence of \<open>Q\<close>, a digit, an
  apostrophe and two digits; the result holds the three digits.
\<close>

fun periodMatch :: "string \<Rightarrow> (char \<times> char \<times> char) option" where
  "periodMatch (q # d # a # y1 # y2 # rest) =
     (if q = CHR ''Q'' \<and> isDigit d \<and> a = CHR 0x27 \<and> isDigit y1 \<and> isDigit y2
      then Some (d, y1, y2)
      else periodMatch (d # a # y1 # y2 # rest))"
| "periodMatch _ = None"

definition quarterFilter :: "string list \<Rightarrow> int list \<Rightarrow> 'a QuarterLabel_scheme \<Rightarrow> bool" where
  "quarterFilter selectedQuarters selectedFiscalYears q =
     (case periodMatch (period q) of
        None \<Rightarrow> True
      | Some (d, y1, y2) \<Rightarrow>
          (let quarterNum = [CHR ''Q'', d];
               yearShort = int (digitVal y1 * 10 + digitVal y2);
               fiscalYear = 2000 + yearShort;
               isQuarterSelected = (quarterNum \<in> set selectedQuarters);
               isYearSelected = (fiscalYear \<in> set selectedFiscalYears)
           in isQuarterSelected \<and> isYearSelected))"

definition processQuarter :: "builtins \<Rightarrow> QuarterlyData \<Rightarrow> ProcessedQuarter" where
  "processQuarter b q =
     \<lparr>quarter = quarter q, period = period q, rawData = indicators q,
      calculatedMetrics = calculated (calculateDerivedMetrics b (indicators q))\<rparr>"

definition processedQuarters ::
  "builtins \<Rightarrow> string list \<Rightarrow> int list \<Rightarrow> QuarterlyData list \<Rightarrow> ProcessedQuarter list" where
  "processedQuarters b selectedQuarters selectedFiscalYears quarterlyData =
     filter (quarterFilter selectedQuarters selectedFiscalYears)
       (map (processQuarter b) quarterlyData)"

subsection \<open>One company: the three steps\<close>

text \<open>
  The local variable \<open>quarterlyData\<close> and the trace are threaded through the steps.
  A step returns \<open>Some e\<close> when its \<open>try\<close> block throws, \<open>e\<close> being \<open>String(error)\<close>
  (\<open>Error: \<close> followed by the message for an \<open>Error\<close> object).
\<close>

record fetch =
  quarterlyData :: "QuarterlyData list"
  calls :: "call list"

definition fromScreener :: "QuarterData \<Rightarrow> QuarterlyData" where
  "fromScreener q =
     \<lparr>quarter = (if quarter q \<noteq> '''' then quarter q else period q),
      period = (if quarter q \<noteq> '''' then quarter q else period q),
      indicators = rawData q\<rparr>"

definition step1 :: "env \<Rightarrow> Company \<Rightarrow> fetch \<Rightarrow> string option \<times> fetch" where
  "step1 e c st =
     (let st1 = st\<lparr>calls := calls st @ [ScrapeScreener (name c)]\<rparr>
      in case scrapeScreener e (name c) of
           Inl err \<Rightarrow> (Some err, st1)
         | Inr qs \<Rightarrow>
             (let st2 = (if qs \<noteq> [] then st1\<lparr>quarterlyData := map fromScreener qs\<rparr> else st1)
              in if quarterlyData st2 = [] \<or> \<not> hasValidData (quarterlyData st2)
                 then (Some ''Error: No valid data extracted from Screener.in'', st2)
                 else (None, st2)))"

definition step2 :: "env \<Rightarrow> nat \<Rightarrow> Company \<Rightarrow> fetch \<Rightarrow> string option \<times> fetch" where
  "step2 e totalQuarters c st =
     (let st1 = st\<lparr>calls := calls st
                   @ [ScrapeMoneyControl (moneyControlUrl c) totalQuarters (name c)]\<rparr>
      in case scrapeMoneyControl e (moneyControlUrl c) totalQuarters (name c) of
           Inl err \<Rightarrow> (Some err, st1)
         | Inr d \<Rightarrow>
             (let st2 = st1\<lparr>quarterlyData := d\<rparr>
              in if quarterlyData st2 = [] \<or> \<not> hasValidData (quarterlyData st2)
                 then (Some ''Error: No valid data from MoneyControl scraping'', st2)
                 else (None, st2)))"

definition step3 :: "env \<Rightarrow> nat \<Rightarrow> Company \<Rightarrow> fetch \<Rightarrow> string option \<times> fetch" where
  "step3 e totalQuarters c st =
     (let st1 = st\<lparr>calls := calls st @ [GetMoneyControlUrlFromPerplexity (name c)]\<rparr>;
          check = (\<lambda>s. if quarterlyData s = [] \<or> \<not> hasValidData (quarterlyData s)
                        then (Some ''Error: No valid data from Perplexity-provided URL'', s)
                        else (None, s))
      in case getMoneyControlUrlFromPerplexity e (name c) of
           Inl err \<Rightarrow> (Some err, st1)
         | Inr None \<Rightarrow> check st1
         | Inr (Some perplexityUrl) \<Rightarrow>
             (if perplexityUrl = '''' then check st1
              else
                (let st2 = st1\<lparr>calls := calls st1
                              @ [ScrapeMoneyControl perplexityUrl totalQuarters (name c)]\<rparr>
                 in case scrapeMoneyControl e perplexityUrl totalQuarters (name c) of
                      Inl err \<Rightarrow> (Some err, st2)
                    | Inr d \<Rightarrow> check (st2\<lparr>quarterlyData := d\<rparr>))))"

datatype outcome =
    is_Completed: Completed (result: CompanyQuarterlyData)
  | Failed (message: string)

definition totalQuarters :: "string list \<Rightarrow> int list \<Rightarrow> nat" where
  "totalQuarters selectedQuarters selectedFiscalYears =
     max (length selectedQuarters * length selectedFiscalYears) 8"

definition complete ::
  "env \<Rightarrow> string list \<Rightarrow> int list \<Rightarrow> Company \<Rightarrow> DataSource \<Rightarrow> fetch \<Rightarrow> outcome \<times> call list" where
  "complete e selectedQuarters selectedFiscalYears c src st =
     (Completed
        \<lparr>companyName = name c, dataSource = src,
         quarters = processedQuarters (js e) selectedQuarters selectedFiscalYears (quarterlyData st)\<rparr>,
      calls st)"

text \<open>
  The body of the loop for one company. \<open>Failed e\<close> carries the text of the error
  entry: the outer \<open>catch\<close> stores \<open>String(error)\<close>, the \<open>catch\<close> of step 3 stores its
  own message with the first 100 characters of the error.
\<close>

definition processCompany ::
  "env \<Rightarrow> string list \<Rightarrow> int list \<Rightarrow> Company \<Rightarrow> outcome \<times> call list" where
  "processCompany e selectedQuarters selectedFiscalYears c =
     (let tq = totalQuarters selectedQuarters selectedFiscalYears
      in case step1 e c \<lparr>quarterlyData = [], calls = []\<rparr> of
           (None, st) \<Rightarrow> complete e selectedQuarters selectedFiscalYears c Screener st
         | (Some step1Error, st) \<Rightarrow>
             if moneyControlUrl c = '''' then
               (Failed (''Error: No data sources available for '' @ name c
                   @ ''. Screener failed and no MoneyControl URL configured.''),
                calls st)
             else
               (case step2 e tq c st of
                  (None, st) \<Rightarrow> complete e selectedQuarters selectedFiscalYears c MoneyControl st
                | (Some step2Error, st) \<Rightarrow>
                    (case step3 e tq c st of
                       (None, st) \<Rightarrow>
                         complete e selectedQuarters selectedFiscalYears c PerplexityUrl st
                     | (Some step3Error, st) \<Rightarrow>
                         (Failed (''All fallback steps failed: '' @ take 100 step3Error),
                          calls st))))"

subsection \<open>The run\<close>

record run_state =
  allCompanyData :: "CompanyQuarterlyData list"
  errors :: "ErrorEntry list"
  completedCompanies :: "string list"
  failedCompanies :: "string list"
  trace :: "call list"

definition processAt ::
  "env \<Rightarrow> string list \<Rightarrow> int list \<Rightarrow> nat \<Rightarrow> Company \<Rightarrow> run_state \<Rightarrow> run_state" where
  "processAt e selectedQuarters selectedFiscalYears idx c st =
     (case processCompany e selectedQuarters selectedFiscalYears c of
        (Completed d, cs) \<Rightarrow>
          st\<lparr>allCompanyData := allCompanyData st @ [d],
             completedCompanies := completedCompanies st @ [name c],
             trace := trace st @ cs\<rparr>
      | (Failed err, cs) \<Rightarrow>
          st\<lparr>failedCompanies := failedCompanies st @ [name c],
             errors := errors st @ [\<lparr>company = name c, error = err, timestamp = dateNow e idx\<rparr>],
             trace := trace st @ cs\<rparr>)"

text \<open>The \<open>for\<close> loop over \<open>companiesToProcess\<close>, from index \<open>idx\<close> on.\<close>

fun processAll ::
  "env \<Rightarrow> string list \<Rightarrow> int list \<Rightarrow> nat \<Rightarrow> Company list \<Rightarrow> run_state \<Rightarrow> run_state" where
  "processAll e selectedQuarters selectedFiscalYears idx [] st = st"
| "processAll e selectedQuarters selectedFiscalYears idx (c # cs) st =
     processAll e selectedQuarters selectedFiscalYears (Suc idx) cs
       (processAt e selectedQuarters selectedFiscalYears idx c st)"

text \<open>
  The result extends the variables of the run by \<open>success\<close> and \<open>outputBuffer\<close>;
  \<open>extractedData\<close> is the array \<open>allCompanyData\<close>.
\<close>

record ScrapingResult = run_state +
  success :: bool
  outputBuffer :: "string option"

definition extractedData :: "ScrapingResult \<Rightarrow> CompanyQuarterlyData list" where
  "extractedData r = allCompanyData r"

definition finish :: "env \<Rightarrow> nat \<Rightarrow> run_state \<Rightarrow> ScrapingResult" where
  "finish e n st =
     (let excel = (if allCompanyData st \<noteq> [] then Some (generateOutputExcel e (allCompanyData st))
                   else None);
          errors' = (case excel of
                       Some (Inl excelError) \<Rightarrow>
                         errors st @ [\<lparr>company = ''Excel Generation'', error = excelError,
                                       timestamp = dateNow e n\<rparr>]
                     | _ \<Rightarrow> errors st)
      in \<lparr>allCompanyData = allCompanyData st, errors = errors',
          completedCompanies = completedCompanies st, failedCompanies = failedCompanies st,
          trace = trace st,
          success = (completedCompanies st \<noteq> []),
          outputBuffer = (case excel of Some (Inr buffer) \<Rightarrow> Some buffer | _ \<Rightarrow> None)\<rparr>)"

definition emptyRun :: run_state where
  "emptyRun = \<lparr>allCompanyData = [], errors = [], completedCompanies = [],
               failedCompanies = [], trace = []\<rparr>"

text \<open>Everything after \<open>companiesToProcess\<close> is known.\<close>

definition runCompanies ::
  "env \<Rightarrow> string list \<Rightarrow> int list \<Rightarrow> Company list \<Rightarrow> ScrapingResult" where
  "runCompanies e selectedQuarters selectedFiscalYears companies =
     finish e (length companies)
       (processAll e selectedQuarters selectedFiscalYears 0 companies emptyRun)"

definition mkCompany :: "string \<Rightarrow> Company" where
  "mkCompany n = \<lparr>name = n, url = '''', moneyControlUrl = ''''\<rparr>"

text \<open>\<open>None\<close> is the branch that returns at once with the \<open>System\<close> error.\<close>

definition companiesToProcess ::
  "bool \<Rightarrow> string option \<Rightarrow> string list option \<Rightarrow> Company list option" where
  "companiesToProcess testMode testCompany selectedCompanies =
     (if testMode then
        (case testCompany of
           None \<Rightarrow> Some [mkCompany ''TCS'']
         | Some t \<Rightarrow> if t \<noteq> '''' then Some [mkCompany t] else Some [mkCompany ''TCS''])
      else
        (case selectedCompanies of
           None \<Rightarrow> None
         | Some ns \<Rightarrow> if ns \<noteq> [] then Some (map mkCompany ns) else None))"

definition orchestrateFinancialDataScraping ::
  "env \<Rightarrow> string list \<Rightarrow> int list \<Rightarrow> bool \<Rightarrow> string option \<Rightarrow> string list option
     \<Rightarrow> ScrapingResult" where
  "orchestrateFinancialDataScraping e selectedQuarters selectedFiscalYears testMode testCompany
       selectedCompanies =
     (case companiesToProcess testMode testCompany selectedCompanies of
        None \<Rightarrow>
          \<lparr>allCompanyData = [],
           errors = [\<lparr>company = ''System'', error = ''No companies selected'',
                      timestamp = dateNow e 0\<rparr>],
           completedCompanies = [], failedCompanies = [], trace = [],
           success = False, outputBuffer = None\<rparr>
      | Some companies \<Rightarrow> runCompanies e selectedQuarters selectedFiscalYears companies)"

section \<open>Sample inputs\<close>

text \<open>
  Concrete inputs on which the theorems below are instantiated. \<open>testRawData\<close> is the
  quarter of \<open>calculator.test.ts\<close>. \<open>stubBuiltins\<close> stands for any implementation of
  the two built-ins; the sample data holds numbers and placeholders only, so \<open>parseFloat\<close> is
  never consulted on it.
\<close>

definition stubBuiltins :: builtins where
  "stubBuiltins = \<lparr>parseFloat = (\<lambda>s. NaN), toFixed2 = (\<lambda>n. '''')\<rparr>"

definition testRawData :: RawFinancialData where
  "testRawData =
     [''Total Income From Operations'' \<mapsto> RNum (Finite 22697),
      ''Purchase of Traded Goods'' \<mapsto> RNum (Finite 105),
      ''Increase / Decrease in Stocks'' \<mapsto> RNum (Finite (- 17)),
      ''Employees Cost'' \<mapsto> RNum (Finite 13616),
      ''Depreciation'' \<mapsto> RNum (Finite 691),
      ''Other Expenses'' \<mapsto> RNum (Finite 4620),
      ''Interest'' \<mapsto> RNum (Finite 50),
      ''Other Income'' \<mapsto> RNum (Finite 947)]"


definition sampleIndicators :: RawFinancialData where
  "sampleIndicators =
     [''Net Sales / Income from Operations'' \<mapsto> RNum (Finite 1000),
      ''Total Income From Operations'' \<mapsto> RNum (Finite 1050)]"

text \<open>
  An environment in which Screener has nothing for \<open>Beta\<close> and \<open>Delta\<close>, MoneyControl
  answers for one address only, and the URL lookup knows that address for \<open>Delta\<close>
  only.
\<close>

definition sampleEnv :: env where
  "sampleEnv =
     \<lparr>scrapeScreener = (\<lambda>n. if n = ''Beta'' \<or> n = ''Delta'' then Inr []
          else Inr [\<lparr>quarter = ''Q2'26'', period = ''Q2'26'', rawData = sampleIndicators\<rparr>]),
      scrapeMoneyControl = (\<lambda>u tq n. if u = ''https://www.moneycontrol.com/beta''
          then Inr [\<lparr>quarter = ''Sep '25'', period = ''Q2'26'', indicators = sampleIndicators\<rparr>]
          else Inl ''Error: Request failed with status code 404''),
      getMoneyControlUrlFromPerplexity = (\<lambda>n. if n = ''Delta''
          then Inr (Some ''https://www.moneycontrol.com/beta'') else Inr None),
      generateOutputExcel = (\<lambda>d. Inr ''xlsx''),
      dateNow = (\<lambda>i. 1700000000000 + i),
      js = stubBuiltins\<rparr>"

definition betaConfigured :: Company where
  "betaConfigured =
     \<lparr>name = ''Beta'', url = '''', moneyControlUrl = ''https://www.moneycontrol.com/beta''\<rparr>"

definition betaStale :: Company where
  "betaStale =
     \<lparr>name = ''Beta'', url = '''', moneyControlUrl = ''https://www.moneycontrol.com/old''\<rparr>"

definition ttmQuarter :: QuarterlyData where
  "ttmQuarter = \<lparr>quarter = ''TTM'', period = ''TTM'', indicators = sampleIndicators\<rparr>"

definition q2fy26 :: QuarterlyData where
  "q2fy26 = \<lparr>quarter = ''Sep '25'', period = ''Q2'26'', indicators = sampleIndicators\<rparr>"

definition q2fy25 :: QuarterlyData where
  "q2fy25 = \<lparr>quarter = ''Sep '24'', period = ''Q2'25'', indicators = sampleIndicators\<rparr>"

section \<open>Properties of the calculator\<close>

subsection \<open>What each block leaves alone\<close>

lemma isAvailable_iff: "isAvailable v \<longleftrightarrow> (\<exists>x. v = Some (Finite x))"
  by (cases v) (auto simp: isAvailable_def elim: isNaN.elims)

lemma isAvailable_simps [simp]:
  "isAvailable None = False"
  "isAvailable (Some NaN) = False"
  "isAvailable (Some (Finite x)) = True"
  by (simp_all add: isAvailable_def)

lemma pushIssue_calculated [simp]: "calculated (pushIssue i st) = calculated st"
  by (simp add: pushIssue_def)

lemma pushIssue_issues [simp]: "issues (pushIssue i st) = issues st @ [i]"
  by (simp add: pushIssue_def)

lemma blockContribution_frame [simp]:
  "Revenue (calculated (blockContribution b r st)) = Revenue (calculated st)"
  "OpEBITDA (calculated (blockContribution b r st)) = OpEBITDA (calculated st)"
  "OpEBITDApct (calculated (blockContribution b r st)) = OpEBITDApct (calculated st)"
  "OpEBIT (calculated (blockContribution b r st)) = OpEBIT (calculated st)"
  "OpEBITpct (calculated (blockContribution b r st)) = OpEBITpct (calculated st)"
  "OpPBT (calculated (blockContribution b r st)) = OpPBT (calculated st)"
  "PBT (calculated (blockContribution b r st)) = PBT (calculated st)"
  by (simp_all add: blockContribution_def Let_def)

lemma blockOpEBITDA_frame [simp]:
  "Revenue (calculated (blockOpEBITDA b r st)) = Revenue (calculated st)"
  "Contribution (calculated (blockOpEBITDA b r st)) = Contribution (calculated st)"
  "OpEBITDApct (calculated (blockOpEBITDA b r st)) = OpEBITDApct (calculated st)"
  "OpEBIT (calculated (blockOpEBITDA b r st)) = OpEBIT (calculated st)"
  "OpEBITpct (calculated (blockOpEBITDA b r st)) = OpEBITpct (calculated st)"
  "OpPBT (calculated (blockOpEBITDA b r st)) = OpPBT (calculated st)"
  "PBT (calculated (blockOpEBITDA b r st)) = PBT (calculated st)"
  by (simp_all add: blockOpEBITDA_def Let_def)

lemma blockOpEBITDApctEarly_frame [simp]:
  "Revenue (calculated (blockOpEBITDApctEarly st)) = Revenue (calculated st)"
  "Contribution (calculated (blockOpEBITDApctEarly st)) = Contribution (calculated st)"
  "OpEBITDA (calculated (blockOpEBITDApctEarly st)) = OpEBITDA (calculated st)"
  "OpEBIT (calculated (blockOpEBITDApctEarly st)) = OpEBIT (calculated st)"
  "OpEBITpct (calculated (blockOpEBITDApctEarly st)) = OpEBITpct (calculated st)"
  "OpPBT (calculated (blockOpEBITDApctEarly st)) = OpPBT (calculated st)"
  "PBT (calculated (blockOpEBITDApctEarly st)) = PBT (calculated st)"
  "issues (blockOpEBITDApctEarly st) = issues st"
  by (simp_all add: blockOpEBITDApctEarly_def)

lemma blockOpEBIT_frame [simp]:
  "Revenue (calculated (blockOpEBIT b r st)) = Revenue (calculated st)"
  "Contribution (calculated (blockOpEBIT b r st)) = Contribution (calculated st)"
  "OpEBITDA (calculated (blockOpEBIT b r st)) = OpEBITDA (calculated st)"
  "OpEBITDApct (calculated (blockOpEBIT b r st)) = OpEBITDApct (calculated st)"
  "OpEBITpct (calculated (blockOpEBIT b r st)) = OpEBITpct (calculated st)"
  "OpPBT (calculated (blockOpEBIT b r st)) = OpPBT (calculated st)"
  "PBT (calculated (blockOpEBIT b r st)) = PBT (calculated st)"
  by (simp_all add: blockOpEBIT_def Let_def)

lemma blockOpEBITpctEarly_frame [simp]:
  "Revenue (calculated (blockOpEBITpctEarly st)) = Revenue (calculated st)"
  "Contribution (calculated (blockOpEBITpctEarly st)) = Contribution (calculated st)"
  "OpEBITDA (calculated (blockOpEBITpctEarly st)) = OpEBITDA (calculated st)"
  "OpEBITDApct (calculated (blockOpEBITpctEarly st)) = OpEBITDApct (calculated st)"
  "OpEBIT (calculated (blockOpEBITpctEarly st)) = OpEBIT (calculated st)"
  "OpPBT (calculated (blockOpEBITpctEarly st)) = OpPBT (calculated st)"
  "PBT (calculated (blockOpEBITpctEarly st)) = PBT (calculated st)"
  "issues (blockOpEBITpctEarly st) = issues st"
  by (simp_all add: blockOpEBITpctEarly_def)

lemma blockOpPBT_frame [simp]:
  "Revenue (calculated (blockOpPBT b r st)) = Revenue (calculated st)"
  "Contribution (calculated (blockOpPBT b r st)) = Contribution (calculated st)"
  "OpEBITDA (calculated (blockOpPBT b r st)) = OpEBITDA (calculated st)"
  "OpEBITDApct (calculated (blockOpPBT b r st)) = OpEBITDApct (calculated st)"
  "OpEBIT (calculated (blockOpPBT b r st)) = OpEBIT (calculated st)"
  "OpEBITpct (calculated (blockOpPBT b r st)) = OpEBITpct (calculated st)"
  "PBT (calculated (blockOpPBT b r st)) = PBT (calculated st)"
  by (simp_all add: blockOpPBT_def Let_def)

lemma blockPBT_frame [simp]:
  "Revenue (calculated (blockPBT b r st)) = Revenue (calculated st)"
  "Contribution (calculated (blockPBT b r st)) = Contribution (calculated st)"
  "OpEBITDA (calculated (blockPBT b r st)) = OpEBITDA (calculated st)"
  "OpEBITDApct (calculated (blockPBT b r st)) = OpEBITDApct (calculated st)"
  "OpEBIT (calculated (blockPBT b r st)) = OpEBIT (calculated st)"
  "OpEBITpct (calculated (blockPBT b r st)) = OpEBITpct (calculated st)"
  "OpPBT (calculated (blockPBT b r st)) = OpPBT (calculated st)"
  by (simp_all add: blockPBT_def Let_def)

lemma blockRevenue_frame [simp]:
  "Contribution (calculated (blockRevenue b r st)) = Contribution (calculated st)"
  "OpEBITDA (calculated (blockRevenue b r st)) = OpEBITDA (calculated st)"
  "OpEBITDApct (calculated (blockRevenue b r st)) = OpEBITDApct (calculated st)"
  "OpEBIT (calculated (blockRevenue b r st)) = OpEBIT (calculated st)"
  "OpEBITpct (calculated (blockRevenue b r st)) = OpEBITpct (calculated st)"
  "OpPBT (calculated (blockRevenue b r st)) = OpPBT (calculated st)"
  "PBT (calculated (blockRevenue b r st)) = PBT (calculated st)"
  "issues (blockRevenue b r st) = issues st"
  by (simp_all add: blockRevenue_def Let_def)

lemma blockOpEBITDApct_frame [simp]:
  "Revenue (calculated (blockOpEBITDApct st)) = Revenue (calculated st)"
  "Contribution (calculated (blockOpEBITDApct st)) = Contribution (calculated st)"
  "OpEBITDA (calculated (blockOpEBITDApct st)) = OpEBITDA (calculated st)"
  "OpEBIT (calculated (blockOpEBITDApct st)) = OpEBIT (calculated st)"
  "OpEBITpct (calculated (blockOpEBITDApct st)) = OpEBITpct (calculated st)"
  "OpPBT (calculated (blockOpEBITDApct st)) = OpPBT (calculated st)"
  "PBT (calculated (blockOpEBITDApct st)) = PBT (calculated st)"
  "issues (blockOpEBITDApct st) = issues st"
  by (simp_all add: blockOpEBITDApct_def Let_def)

lemma blockOpEBITpct_frame [simp]:
  "Revenue (calculated (blockOpEBITpct st)) = Revenue (calculated st)"
  "Contribution (calculated (blockOpEBITpct st)) = Contribution (calculated st)"
  "OpEBITDA (calculated (blockOpEBITpct st)) = OpEBITDA (calculated st)"
  "OpEBITDApct (calculated (blockOpEBITpct st)) = OpEBITDApct (calculated st)"
  "OpEBIT (calculated (blockOpEBITpct st)) = OpEBIT (calculated st)"
  "OpPBT (calculated (blockOpEBITpct st)) = OpPBT (calculated st)"
  "PBT (calculated (blockOpEBITpct st)) = PBT (calculated st)"
  "issues (blockOpEBITpct st) = issues st"
  by (simp_all add: blockOpEBITpct_def Let_def)

lemma blockValidatePBT_frame [simp]: "calculated (blockValidatePBT b r st) = calculated st"
  by (simp add: blockValidatePBT_def Let_def)

subsection \<open>What each block writes\<close>

lemma firstAvailable_result:
  "firstAvailable b r ks = None \<or> (\<exists>x. firstAvailable b r ks = Some (Finite x))"
  by (induction ks) (auto simp: Let_def isAvailable_iff)

lemma blockRevenue_value:
  "Revenue (calculated (blockRevenue b r st)) =
     (if isAvailable (firstAvailable b r revenueKeys) then firstAvailable b r revenueKeys
      else Revenue (calculated st))"
  by (simp add: blockRevenue_def Let_def)

lemma blockContribution_value:
  "Contribution (calculated (blockContribution b r st)) =
     (if isAvailable (toNumber b (r ''Total Income From Operations'')) then
        Some (minus_number (minus_number (the (toNumber b (r ''Total Income From Operations'')))
          (if isAvailable (toNumber b (r ''Purchase of Traded Goods''))
           then the (toNumber b (r ''Purchase of Traded Goods'')) else Finite 0))
          (if isAvailable (toNumber b (r ''Increase / Decrease in Stocks''))
           then the (toNumber b (r ''Increase / Decrease in Stocks'')) else Finite 0))
      else Contribution (calculated st))"
  by (simp add: blockContribution_def Let_def)

lemma blockOpEBITDA_value:
  "OpEBITDA (calculated (blockOpEBITDA b r st)) =
     (if isAvailable (Contribution (calculated st))
          \<and> isAvailable (toNumber b (r ''Employees Cost''))
          \<and> isAvailable (toNumber b (r ''Other Expenses''))
      then Some (minus_number (minus_number (the (Contribution (calculated st)))
                   (the (toNumber b (r ''Employees Cost''))))
                   (the (toNumber b (r ''Other Expenses''))))
      else if isAvailable (nullish (toNumber b (r ''Op. EBITDA''))
                                   (toNumber b (r ''Operating Profit'')))
      then nullish (toNumber b (r ''Op. EBITDA'')) (toNumber b (r ''Operating Profit''))
      else OpEBITDA (calculated st))"
  by (simp add: blockOpEBITDA_def Let_def)

lemma blockOpEBIT_value:
  "OpEBIT (calculated (blockOpEBIT b r st)) =
     (if isAvailable (OpEBITDA (calculated st)) \<and> isAvailable (toNumber b (r ''Depreciation''))
      then Some (minus_number (the (OpEBITDA (calculated st)))
                   (the (toNumber b (r ''Depreciation''))))
      else OpEBIT (calculated st))"
  by (simp add: blockOpEBIT_def Let_def)

lemma blockOpPBT_value:
  "OpPBT (calculated (blockOpPBT b r st)) =
     (if isAvailable (OpEBIT (calculated st)) \<and> isAvailable (toNumber b (r ''Interest''))
      then Some (minus_number (the (OpEBIT (calculated st))) (the (toNumber b (r ''Interest''))))
      else OpPBT (calculated st))"
  by (simp add: blockOpPBT_def Let_def)

lemma blockPBT_value:
  "PBT (calculated (blockPBT b r st)) =
     (if isAvailable (OpPBT (calculated st)) \<and> isAvailable (toNumber b (r ''Other Income''))
      then Some (plus_number (the (OpPBT (calculated st))) (the (toNumber b (r ''Other Income''))))
      else if isAvailable (nullish (toNumber b (r ''P/L Before Tax''))
                                   (toNumber b (r ''Profit before tax'')))
      then nullish (toNumber b (r ''P/L Before Tax'')) (toNumber b (r ''Profit before tax''))
      else PBT (calculated st))"
  by (simp add: blockPBT_def Let_def)





subsection \<open>The fields of the result\<close>

lemma Revenue_final:
  "Revenue (calculated (calculateDerivedMetrics b r)) = firstAvailable b r revenueKeys"
  using firstAvailable_result [of b r revenueKeys]
  by (auto simp: calculateDerivedMetrics_def blockRevenue_value emptyMetrics_def)

lemma Contribution_final:
  "Contribution (calculated (calculateDerivedMetrics b r)) =
     (if isAvailable (toNumber b (r ''Total Income From Operations'')) then
        Some (minus_number (minus_number (the (toNumber b (r ''Total Income From Operations'')))
          (if isAvailable (toNumber b (r ''Purchase of Traded Goods''))
           then the (toNumber b (r ''Purchase of Traded Goods'')) else Finite 0))
          (if isAvailable (toNumber b (r ''Increase / Decrease in Stocks''))
           then the (toNumber b (r ''Increase / Decrease in Stocks'')) else Finite 0))
      else None)"
  by (simp add: calculateDerivedMetrics_def blockContribution_value emptyMetrics_def)

lemma OpEBITDA_final:
  "OpEBITDA (calculated (calculateDerivedMetrics b r)) =
     (if isAvailable (Contribution (calculated (calculateDerivedMetrics b r)))
          \<and> isAvailable (toNumber b (r ''Employees Cost''))
          \<and> isAvailable (toNumber b (r ''Other Expenses''))
      then Some (minus_number
                   (minus_number (the (Contribution (calculated (calculateDerivedMetrics b r))))
                      (the (toNumber b (r ''Employees Cost''))))
                   (the (toNumber b (r ''Other Expenses''))))
      else if isAvailable (nullish (toNumber b (r ''Op. EBITDA''))
                                   (toNumber b (r ''Operating Profit'')))
      then nullish (toNumber b (r ''Op. EBITDA'')) (toNumber b (r ''Operating Profit''))
      else None)"
  by (simp add: calculateDerivedMetrics_def blockOpEBITDA_value emptyMetrics_def)

lemma OpEBIT_final:
  "OpEBIT (calculated (calculateDerivedMetrics b r)) =
     (if isAvailable (OpEBITDA (calculated (calculateDerivedMetrics b r)))
         \<and> isAvailable (toNumber b (r ''Depreciation''))
      then Some (minus_number (the (OpEBITDA (calculated (calculateDerivedMetrics b r))))
                   (the (toNumber b (r ''Depreciation''))))
      else None)"
  by (simp add: calculateDerivedMetrics_def blockOpEBIT_value emptyMetrics_def)

lemma OpPBT_final:
  "OpPBT (calculated (calculateDerivedMetrics b r)) =
     (if isAvailable (OpEBIT (calculated (calculateDerivedMetrics b r)))
         \<and> isAvailable (toNumber b (r ''Interest''))
      then Some (minus_number (the (OpEBIT (calculated (calculateDerivedMetrics b r))))
                   (the (toNumber b (r ''Interest''))))
      else None)"
  by (simp add: calculateDerivedMetrics_def blockOpPBT_value emptyMetrics_def)

lemma PBT_final:
  "PBT (calculated (calculateDerivedMetrics b r)) =
     (if isAvailable (OpPBT (calculated (calculateDerivedMetrics b r)))
         \<and> isAvailable (toNumber b (r ''Other Income''))
      then Some (plus_number (the (OpPBT (calculated (calculateDerivedMetrics b r))))
                   (the (toNumber b (r ''Other Income''))))
      else if isAvailable (nullish (toNumber b (r ''P/L Before Tax''))
                                   (toNumber b (r ''Profit before tax'')))
      then nullish (toNumber b (r ''P/L Before Tax'')) (toNumber b (r ''Profit before tax''))
      else None)"
  by (simp add: calculateDerivedMetrics_def blockPBT_value emptyMetrics_def)



subsection \<open>Issues are only ever appended\<close>

lemma issues_mono:
  "set (issues st) \<subseteq> set (issues (blockOpEBITDA b r st))"
  "set (issues st) \<subseteq> set (issues (blockOpEBIT b r st))"
  "set (issues st) \<subseteq> set (issues (blockOpPBT b r st))"
  "set (issues st) \<subseteq> set (issues (blockPBT b r st))"
  "set (issues st) \<subseteq> set (issues (blockValidatePBT b r st))"
  by (auto simp: blockOpEBITDA_def blockOpEBIT_def blockOpPBT_def blockPBT_def
        blockValidatePBT_def Let_def)

lemma issues_kept:
  assumes "i \<in> set (issues (blockContribution b r \<lparr>calculated = emptyMetrics, issues = []\<rparr>))"
  shows "i \<in> set (issues (calculateDerivedMetrics b r))"
proof -
  let ?s1 = "blockContribution b r \<lparr>calculated = emptyMetrics, issues = []\<rparr>"
  let ?s2 = "blockOpEBITDA b r ?s1"
  let ?s4 = "blockOpEBIT b r (blockOpEBITDApctEarly ?s2)"
  let ?s6 = "blockOpPBT b r (blockOpEBITpctEarly ?s4)"
  let ?s7 = "blockPBT b r ?s6"
  have "i \<in> set (issues ?s2)" using assms issues_mono(1) by blast
  then have "i \<in> set (issues (blockOpEBITDApctEarly ?s2))" by simp
  then have "i \<in> set (issues ?s4)" using issues_mono(2) by blast
  then have "i \<in> set (issues (blockOpEBITpctEarly ?s4))" by simp
  then have "i \<in> set (issues ?s6)" using issues_mono(3) by blast
  then have "i \<in> set (issues ?s7)" using issues_mono(4) by blast
  then have "i \<in> set (issues (blockOpEBITpct (blockOpEBITDApct (blockRevenue b r ?s7))))"
    by simp
  then show ?thesis
    unfolding calculateDerivedMetrics_def using issues_mono(5) by blast
qed

lemma Contribution_issue:
  "\<not> isAvailable (toNumber b (r ''Total Income From Operations'')) \<Longrightarrow>
     mkIssue ''Contribution'' ''Total Income From Operations is missing'' Error
       \<in> set (issues (calculateDerivedMetrics b r))"
  by (rule issues_kept) (simp add: blockContribution_def)

subsection \<open>No field is NaN\<close>

lemma Revenue_not_NaN: "Revenue (calculated (calculateDerivedMetrics b r)) \<noteq> Some NaN"
  using firstAvailable_result [of b r revenueKeys] by (auto simp: Revenue_final)




subsection \<open>The sample quarter\<close>






subsection \<open>Claims about the calculator\<close>

text \<open>
  C2. When every operand is present, the metrics obey the chain
  Contribution = Total Income From Operations - Purchase of Traded Goods
  - Increase / Decrease in Stocks, Op. EBITDA = Contribution - Employees Cost
  - Other Expenses, Op. EBIT = Op. EBITDA - Depreciation, Op. PBT = Op. EBIT - Interest
  and PBT = Op. PBT + Other Income. The witness is the quarter of the test file, with
  the values 22609, 4373, 3682, 3632 and 4579.
\<close>

theorem chained_identities:
  assumes "toNumber b (r ''Total Income From Operations'') = Some (Finite ti)"
    and "toNumber b (r ''Purchase of Traded Goods'') = Some (Finite pt)"
    and "toNumber b (r ''Increase / Decrease in Stocks'') = Some (Finite sc)"
    and "toNumber b (r ''Employees Cost'') = Some (Finite ec)"
    and "toNumber b (r ''Other Expenses'') = Some (Finite oe)"
    and "toNumber b (r ''Depreciation'') = Some (Finite dep)"
    and "toNumber b (r ''Interest'') = Some (Finite intr)"
    and "toNumber b (r ''Other Income'') = Some (Finite oi)"
  shows "\<exists>c ebitda ebit oppbt pbt.
           Contribution (calculated (calculateDerivedMetrics b r)) = Some (Finite c)
         \<and> OpEBITDA (calculated (calculateDerivedMetrics b r)) = Some (Finite ebitda)
         \<and> OpEBIT (calculated (calculateDerivedMetrics b r)) = Some (Finite ebit)
         \<and> OpPBT (calculated (calculateDerivedMetrics b r)) = Some (Finite oppbt)
         \<and> PBT (calculated (calculateDerivedMetrics b r)) = Some (Finite pbt)
         \<and> c = ti - pt - sc
         \<and> ebitda = c - ec - oe
         \<and> ebit = ebitda - dep
         \<and> oppbt = ebit - intr
         \<and> pbt = oppbt + oi"
proof -
  have c: "Contribution (calculated (calculateDerivedMetrics b r)) = Some (Finite (ti - pt - sc))"
    using assms(1-3) by (simp add: Contribution_final)
  have e: "OpEBITDA (calculated (calculateDerivedMetrics b r))
             = Some (Finite (ti - pt - sc - ec - oe))"
    using assms(4,5) by (subst OpEBITDA_final) (simp add: c)
  have i: "OpEBIT (calculated (calculateDerivedMetrics b r))
             = Some (Finite (ti - pt - sc - ec - oe - dep))"
    using assms(6) by (subst OpEBIT_final) (simp add: e)
  have p: "OpPBT (calculated (calculateDerivedMetrics b r))
             = Some (Finite (ti - pt - sc - ec - oe - dep - intr))"
    using assms(7) by (subst OpPBT_final) (simp add: i)
  have q: "PBT (calculated (calculateDerivedMetrics b r))
             = Some (Finite (ti - pt - sc - ec - oe - dep - intr + oi))"
    using assms(8) by (subst PBT_final) (simp add: p)
  show ?thesis using c e i p q by simp
qed

theorem chained_identities_witness:
  "Contribution (calculated (calculateDerivedMetrics stubBuiltins testRawData)) = Some (Finite 22609)
   \<and> OpEBITDA (calculated (calculateDerivedMetrics stubBuiltins testRawData)) = Some (Finite 4373)
   \<and> OpEBIT (calculated (calculateDerivedMetrics stubBuiltins testRawData)) = Some (Finite 3682)
   \<and> OpPBT (calculated (calculateDerivedMetrics stubBuiltins testRawData)) = Some (Finite 3632)
   \<and> PBT (calculated (calculateDerivedMetrics stubBuiltins testRawData)) = Some (Finite 4579)"
  using chained_identities [of stubBuiltins testRawData 22697 105 "- 17" 13616 4620 691 50 947]
  by (simp add: toNumber_def testRawData_def)

text \<open>
  C3. When Total Income From Operations is a number, Contribution is that number
  minus Purchase of Traded Goods and minus Increase / Decrease in Stocks, each
  counted as 0 when it is not available. When Total Income From Operations is not
  available, Contribution is absent and the issues hold an entry of severity
  \<open>error\<close> for the metric Contribution.
\<close>

theorem contribution_rule:
  "(\<forall>t. toNumber b (r ''Total Income From Operations'') = Some (Finite t) \<longrightarrow>
      Contribution (calculated (calculateDerivedMetrics b r)) =
        Some (Finite (t
          - (case toNumber b (r ''Purchase of Traded Goods'') of Some (Finite p) \<Rightarrow> p | _ \<Rightarrow> 0)
          - (case toNumber b (r ''Increase / Decrease in Stocks'') of Some (Finite s) \<Rightarrow> s | _ \<Rightarrow> 0))))
   \<and> (\<not> isAvailable (toNumber b (r ''Total Income From Operations'')) \<longrightarrow>
      Contribution (calculated (calculateDerivedMetrics b r)) = None
      \<and> \<lparr>metric = ''Contribution'', issue = ''Total Income From Operations is missing'',
          severity = Error, expected = None, actual = None\<rparr>
          \<in> set (issues (calculateDerivedMetrics b r)))"
proof (intro conjI allI impI)
  fix t
  assume "toNumber b (r ''Total Income From Operations'') = Some (Finite t)"
  then show "Contribution (calculated (calculateDerivedMetrics b r)) =
        Some (Finite (t
          - (case toNumber b (r ''Purchase of Traded Goods'') of Some (Finite p) \<Rightarrow> p | _ \<Rightarrow> 0)
          - (case toNumber b (r ''Increase / Decrease in Stocks'') of Some (Finite s) \<Rightarrow> s | _ \<Rightarrow> 0)))"
    by (simp add: Contribution_final split: option.split number.split)
next
  assume na: "\<not> isAvailable (toNumber b (r ''Total Income From Operations''))"
  then show "Contribution (calculated (calculateDerivedMetrics b r)) = None"
    by (simp add: Contribution_final)
  from na show "\<lparr>metric = ''Contribution'', issue = ''Total Income From Operations is missing'',
          severity = Error, expected = None, actual = None\<rparr>
          \<in> set (issues (calculateDerivedMetrics b r))"
    using Contribution_issue [of b r] by (simp add: mkIssue_def)
qed

theorem contribution_rule_witness:
  "Contribution (calculated (calculateDerivedMetrics stubBuiltins
      [''Total Income From Operations'' \<mapsto> RNum (Finite 22697),
       ''Purchase of Traded Goods'' \<mapsto> RStr ''--''])) = Some (Finite 22697)
   \<and> Contribution (calculated (calculateDerivedMetrics stubBuiltins
      [''Total Income From Operations'' \<mapsto> RStr ''NA''])) = None
   \<and> \<lparr>metric = ''Contribution'', issue = ''Total Income From Operations is missing'',
       severity = Error, expected = None, actual = None\<rparr>
       \<in> set (issues (calculateDerivedMetrics stubBuiltins
            [''Total Income From Operations'' \<mapsto> RStr ''NA'']))"
  using contribution_rule [of stubBuiltins
      "[''Total Income From Operations'' \<mapsto> RNum (Finite 22697),
        ''Purchase of Traded Goods'' \<mapsto> RStr ''--'']"]
    contribution_rule [of stubBuiltins "[''Total Income From Operations'' \<mapsto> RStr ''NA'']"]
  by (simp add: toNumber_def)



section \<open>Properties of the normalizer and of the period conversions\<close>

subsection \<open>normalizeIndicatorName\<close>

text \<open>Every value of the synonym table is mapped to itself.\<close>

lemma mapping_values_fixed:
  "list_all (\<lambda>v. normalizeIndicatorName v = Label v) (map snd mapping)"
  by code_simp

lemma mapping_keys_distinct: "distinct (map fst mapping)"
  by code_simp

lemma getProperty_Own: "getProperty obj key = Own v \<Longrightarrow> v \<in> set (map snd obj)"
  by (auto simp: getProperty_def split: option.splits if_splits
        dest: map_of_SomeD intro: rev_image_eqI)

text \<open>
  Whenever the function returns a string, a second application returns the same
  string: a table value is a fixed point, and a label that is passed through is
  looked up again with the same result.
\<close>

lemma normalize_idempotent_on_labels:
  assumes "normalizeIndicatorName l = Label s"
  shows "normalizeIndicatorName s = Label s"
proof (cases "getProperty mapping (trim (toLowerCase l))")
  case (Own v)
  show ?thesis
  proof (cases "v = ''''")
    case True
    then have "s = l" using assms Own by (simp add: normalizeIndicatorName_def)
    then show ?thesis using assms by simp
  next
    case False
    then have "s = v" using assms Own by (simp add: normalizeIndicatorName_def)
    moreover have "v \<in> set (map snd mapping)" using Own by (rule getProperty_Own)
    ultimately show ?thesis using mapping_values_fixed by (auto simp: list_all_iff)
  qed
next
  case (Inherited k)
  then show ?thesis using assms by (simp add: normalizeIndicatorName_def)
next
  case Undefined
  then have "s = l" using assms by (simp add: normalizeIndicatorName_def)
  then show ?thesis using assms by simp
qed

lemma normalize_passthrough:
  "getProperty mapping (trim (toLowerCase l)) = Undefined \<Longrightarrow>
     normalizeIndicatorName l = Label l"
  by (simp add: normalizeIndicatorName_def)

text \<open>The only other results are inherited members, reached through their own names.\<close>

lemma normalize_object_member:
  "normalizeIndicatorName l = ObjectMember k \<Longrightarrow>
     k = trim (toLowerCase l) \<and> k \<in> set objectPrototypeKeys \<and> map_of mapping k = None"
  by (auto simp: normalizeIndicatorName_def getProperty_def Let_def
        split: option.splits if_splits)

lemma normalize_proto: "normalizeIndicatorName '' __PROTO__ '' = ObjectMember ''__proto__''"
  by code_simp

text \<open>
  C10. The claim is that the normalizer is idempotent on every label and passes
  every label that is not in the synonym table through unchanged. The label
  \<open>constructor\<close> is not in the table, yet the lookup \<open>mapping[lowerName]\<close> finds the
  member \<open>constructor\<close> that every object literal inherits, and the function returns
  that member, the function \<open>Object\<close>, instead of the label. The result is not a
  string, so a second application fails on \<open>name.toLowerCase\<close>. For all labels on which
  the function returns a string, idempotence holds (\<open>normalize_idempotent_on_labels\<close>).
\<close>

theorem normalize_constructor:
  "normalizeIndicatorName ''constructor'' = ObjectMember ''constructor''"
  by code_simp

subsection \<open>parseQuarterHeader and convertToFiscalQuarter\<close>

lemma parseQuarterHeader_Own:
  assumes "headerMatch h = Some (m, d1, d2)"
    and "getProperty monthMap (toLowerCase m) = Own (q, off)"
  shows "hdr_period (parseQuarterHeader h) =
           q @ [CHR 0x27] @ sliceLast2 (natToString (2000 + digitVal d1 * 10 + digitVal d2 + off))"
  using assms by (simp add: parseQuarterHeader_def Let_def)

lemma parseQuarterHeader_no_match:
  "headerMatch h = None \<Longrightarrow> hdr_period (parseQuarterHeader h) = h"
  by (simp add: parseQuarterHeader_def)

lemma headerMatch_month_25:
  "headerMatch ''Jan '25'' = Some (''Jan'', CHR ''2'', CHR ''5'')"
  "headerMatch ''Feb '25'' = Some (''Feb'', CHR ''2'', CHR ''5'')"
  "headerMatch ''Sep '25'' = Some (''Sep'', CHR ''2'', CHR ''5'')"
  "headerMatch ''Mar '25'' = Some (''Mar'', CHR ''2'', CHR ''5'')"
  by (simp_all add: headerMatchAt_def headerTail_def isDigit_def isUpper_def isLower_def
        isLetter_def isSpace_def)

lemma monthMap_lookups:
  "getProperty monthMap (toLowerCase ''Jan'') = Own (''Q3'', 0)"
  "getProperty monthMap (toLowerCase ''Feb'') = Own (''Q3'', 0)"
  "getProperty monthMap (toLowerCase ''Sep'') = Own (''Q2'', 1)"
  "getProperty monthMap (toLowerCase ''Mar'') = Own (''Q4'', 0)"
  by (simp_all add: getProperty_def monthMap_def toLowerCase_def toLowerChar_def)

text \<open>The two examples of the specification.\<close>

lemma parseQuarterHeader_Sep: "hdr_period (parseQuarterHeader ''Sep '25'') = ''Q2'26''"
  using parseQuarterHeader_Own [OF headerMatch_month_25(3) monthMap_lookups(3)]
  by (simp add: digitVal_def natToString.simps digitChar_def sliceLast2_def)

lemma parseQuarterHeader_Mar: "hdr_period (parseQuarterHeader ''Mar '25'') = ''Q4'25''"
  using parseQuarterHeader_Own [OF headerMatch_month_25(4) monthMap_lookups(4)]
  by (simp add: digitVal_def natToString.simps digitChar_def sliceLast2_def)

lemma parseQuarterHeader_Feb: "hdr_period (parseQuarterHeader ''Feb '25'') = ''Q3'25''"
  using parseQuarterHeader_Own [OF headerMatch_month_25(2) monthMap_lookups(2)]
  by (simp add: digitVal_def natToString.simps digitChar_def sliceLast2_def)

lemma parseQuarterHeader_unparseable: "hdr_period (parseQuarterHeader ''TTM'') = ''TTM''"
  by (rule parseQuarterHeader_no_match)
     (simp add: headerMatchAt_def headerTail_def isDigit_def isUpper_def isLower_def
        isLetter_def isSpace_def)

text \<open>The Screener conversion puts January in the fourth quarter.\<close>

lemma convertToFiscalQuarter_Jan: "convertToFiscalQuarter ''Jan 2025'' = ''Q4'25''"
proof -
  have p: "splitSpace (trim ''Jan 2025'') = [''Jan'', ''2025'']"
    by (simp add: trim_def isSpace_def)
  have y: "parseInt10 ''2025'' = Some 2025"
    by (simp add: parseInt10_def isSpace_def isDigit_def digitVal_def)
  have m: "getProperty screenerMonthMap ''Jan'' = Own (4, 0)"
    by (simp add: getProperty_def screenerMonthMap_def)
  have s: "sliceLast2 (intToString (Some 2025)) = ''25''"
    by (simp add: intToString_def natToString.simps digitChar_def sliceLast2_def)
  have q: "natToString 4 = ''4''"
    by (simp add: natToString.simps digitChar_def)
  show ?thesis
    by (simp add: convertToFiscalQuarter_def p y m s q del: splitSpace.simps)
qed

text \<open>
  C8. The claim is that a label made of a month name and a two-digit year is mapped
  to the quarter of the fiscal year that begins in April, January to March being
  the fourth quarter of the fiscal year equal to the calendar year. The month table
  of \<open>parseQuarterHeader\<close> gives \<open>Q3\<close> for \<open>jan\<close> and \<open>feb\<close>, so the label for January
  2025 becomes the third quarter of fiscal year 2025, against the comment above the
  function and against \<open>convertToFiscalQuarter\<close>. The two examples of the specification
  hold (\<open>parseQuarterHeader_Sep\<close>, \<open>parseQuarterHeader_Mar\<close>).
\<close>

theorem parseQuarterHeader_Jan: "hdr_period (parseQuarterHeader ''Jan '25'') = ''Q3'25''"
  using parseQuarterHeader_Own [OF headerMatch_month_25(1) monthMap_lookups(1)]
  by (simp add: digitVal_def natToString.simps digitChar_def sliceLast2_def)

section \<open>Properties of the orchestrator\<close>

subsection \<open>One company\<close>

lemma step1_calls:
  "calls (snd (step1 e c st)) = calls st @ [ScrapeScreener (name c)]"
  by (simp add: step1_def Let_def split: sum.split)

lemma step2_ok:
  assumes "scrapeMoneyControl e (moneyControlUrl c) tq (name c) = Inr d"
    and "d \<noteq> []" and "hasValidData d"
  shows "step2 e tq c st =
           (None, st\<lparr>calls := calls st @ [ScrapeMoneyControl (moneyControlUrl c) tq (name c)],
                     quarterlyData := d\<rparr>)"
  using assms by (simp add: step2_def Let_def)

lemma processCompany_no_url:
  assumes "moneyControlUrl c = ''''"
  shows "snd (processCompany e sq fy c) = [ScrapeScreener (name c)]"
proof (cases "step1 e c \<lparr>quarterlyData = [], calls = []\<rparr>")
  case (Pair r st)
  have "calls st = [ScrapeScreener (name c)]"
    using step1_calls [of e c "\<lparr>quarterlyData = [], calls = []\<rparr>"] Pair by simp
  then show ?thesis
    using assms Pair by (cases r) (simp_all add: processCompany_def complete_def)
qed

lemma no_url_failure:
  assumes "moneyControlUrl c = ''''"
    and "fst (step1 e c \<lparr>quarterlyData = [], calls = []\<rparr>) = Some step1Error"
  shows "processCompany e sq fy c =
           (Failed (''Error: No data sources available for '' @ name c
              @ ''. Screener failed and no MoneyControl URL configured.''),
            [ScrapeScreener (name c)])"
proof (cases "step1 e c \<lparr>quarterlyData = [], calls = []\<rparr>")
  case (Pair r st)
  have "calls st = [ScrapeScreener (name c)]"
    using step1_calls [of e c "\<lparr>quarterlyData = [], calls = []\<rparr>"] Pair by simp
  then show ?thesis
    using assms Pair by (simp add: processCompany_def)
qed

lemma processCompany_companyName:
  "is_Completed (fst (processCompany e sq fy c)) \<Longrightarrow>
     companyName (result (fst (processCompany e sq fy c))) = name c"
  by (auto simp: processCompany_def complete_def Let_def
        split: prod.splits option.splits if_splits)

subsection \<open>The loop\<close>

lemma processAll_allCompanyData:
  "allCompanyData (processAll e sq fy idx cs st) =
     allCompanyData st
       @ map (\<lambda>c. result (fst (processCompany e sq fy c)))
           (filter (\<lambda>c. is_Completed (fst (processCompany e sq fy c))) cs)"
proof (induction cs arbitrary: idx st)
  case Nil
  then show ?case by simp
next
  case (Cons c cs)
  show ?case
    by (cases "processCompany e sq fy c"; cases "fst (processCompany e sq fy c)")
       (simp_all add: Cons.IH processAt_def)
qed

lemma processAll_completedCompanies:
  "completedCompanies (processAll e sq fy idx cs st) =
     completedCompanies st
       @ map name (filter (\<lambda>c. is_Completed (fst (processCompany e sq fy c))) cs)"
proof (induction cs arbitrary: idx st)
  case Nil
  then show ?case by simp
next
  case (Cons c cs)
  show ?case
    by (cases "processCompany e sq fy c"; cases "fst (processCompany e sq fy c)")
       (simp_all add: Cons.IH processAt_def)
qed

lemma processAll_failedCompanies:
  "failedCompanies (processAll e sq fy idx cs st) =
     failedCompanies st
       @ map name (filter (\<lambda>c. \<not> is_Completed (fst (processCompany e sq fy c))) cs)"
proof (induction cs arbitrary: idx st)
  case Nil
  then show ?case by simp
next
  case (Cons c cs)
  show ?case
    by (cases "processCompany e sq fy c"; cases "fst (processCompany e sq fy c)")
       (simp_all add: Cons.IH processAt_def)
qed

lemma processAll_errors:
  "errors (processAll e sq fy idx cs st) =
     errors st
       @ map (\<lambda>(i, c). \<lparr>company = name c, error = message (fst (processCompany e sq fy c)),
                         timestamp = dateNow e i\<rparr>)
           (filter (\<lambda>(i, c). \<not> is_Completed (fst (processCompany e sq fy c)))
              (enumerate idx cs))"
proof (induction cs arbitrary: idx st)
  case Nil
  then show ?case by simp
next
  case (Cons c cs)
  show ?case
    by (cases "processCompany e sq fy c"; cases "fst (processCompany e sq fy c)")
       (simp_all add: Cons.IH processAt_def)
qed

lemma processAll_trace:
  "trace (processAll e sq fy idx cs st) =
     trace st @ concat (map (\<lambda>c. snd (processCompany e sq fy c)) cs)"
proof (induction cs arbitrary: idx st)
  case Nil
  then show ?case by simp
next
  case (Cons c cs)
  show ?case
    by (cases "processCompany e sq fy c"; cases "fst (processCompany e sq fy c)")
       (simp_all add: Cons.IH processAt_def)
qed

subsection \<open>The run and the entry point\<close>

lemma runCompanies_fields:
  "allCompanyData (runCompanies e sq fy cs) = allCompanyData (processAll e sq fy 0 cs emptyRun)"
  "completedCompanies (runCompanies e sq fy cs)
     = completedCompanies (processAll e sq fy 0 cs emptyRun)"
  "failedCompanies (runCompanies e sq fy cs) = failedCompanies (processAll e sq fy 0 cs emptyRun)"
  "trace (runCompanies e sq fy cs) = trace (processAll e sq fy 0 cs emptyRun)"
  "success (runCompanies e sq fy cs)
     = (completedCompanies (processAll e sq fy 0 cs emptyRun) \<noteq> [])"
  by (simp_all add: runCompanies_def finish_def Let_def)

lemma runCompanies_errors:
  "\<exists>excelErrors. errors (runCompanies e sq fy cs)
       = errors (processAll e sq fy 0 cs emptyRun) @ excelErrors
     \<and> length excelErrors \<le> 1
     \<and> (\<forall>x\<in>set excelErrors. company x = ''Excel Generation'')"
  by (simp add: runCompanies_def finish_def Let_def split: option.split sum.split)

lemma companiesToProcess_no_url:
  "companiesToProcess tm tc sc = Some cs \<Longrightarrow> c \<in> set cs \<Longrightarrow> moneyControlUrl c = ''''"
  by (auto simp: companiesToProcess_def mkCompany_def split: if_splits option.splits)

lemma orchestrate_Some:
  "companiesToProcess tm tc sc = Some cs \<Longrightarrow>
     orchestrateFinancialDataScraping e sq fy tm tc sc = runCompanies e sq fy cs"
  by (simp add: orchestrateFinancialDataScraping_def)

lemma orchestrate_None:
  "companiesToProcess tm tc sc = None \<Longrightarrow>
     trace (orchestrateFinancialDataScraping e sq fy tm tc sc) = []"
  by (simp add: orchestrateFinancialDataScraping_def)

lemma runCompanies_trace_no_url:
  assumes "\<forall>c\<in>set cs. moneyControlUrl c = ''''"
  shows "trace (runCompanies e sq fy cs) = map (\<lambda>c. ScrapeScreener (name c)) cs"
proof -
  have "concat (map (\<lambda>c. snd (processCompany e sq fy c)) cs)
          = map (\<lambda>c. ScrapeScreener (name c)) cs"
    using assms by (induction cs) (simp_all add: processCompany_no_url)
  then show ?thesis
    by (simp add: runCompanies_fields processAll_trace emptyRun_def)
qed

lemma failed_company_recorded:
  assumes "c \<in> set cs" and "processCompany e sq fy c = (Failed msg, tr)"
  shows "name c \<in> set (failedCompanies (runCompanies e sq fy cs))
       \<and> (\<exists>ts. \<lparr>company = name c, error = msg, timestamp = ts\<rparr>
                  \<in> set (errors (runCompanies e sq fy cs)))"
proof -
  have f: "\<not> is_Completed (fst (processCompany e sq fy c))" using assms(2) by simp
  have "name c \<in> set (failedCompanies (runCompanies e sq fy cs))"
    using assms(1) f by (simp add: runCompanies_fields processAll_failedCompanies emptyRun_def)
  moreover have "\<exists>ts. \<lparr>company = name c, error = msg, timestamp = ts\<rparr>
                  \<in> set (errors (runCompanies e sq fy cs))"
  proof -
    obtain i where i: "i < length cs" "cs ! i = c"
      using assms(1) by (auto simp: in_set_conv_nth)
    then have "(i, c) \<in> set (enumerate 0 cs)"
      by (auto simp: in_set_enumerate_eq)
    then have "\<lparr>company = name c, error = msg, timestamp = dateNow e i\<rparr>
        \<in> set (errors (processAll e sq fy 0 cs emptyRun))"
      using f assms(2) by (force simp: processAll_errors emptyRun_def)
    moreover obtain excelErrors where
      "errors (runCompanies e sq fy cs) = errors (processAll e sq fy 0 cs emptyRun) @ excelErrors"
      using runCompanies_errors [of e sq fy cs] by blast
    ultimately show ?thesis by auto
  qed
  ultimately show ?thesis by blast
qed

subsection \<open>The quarter filter\<close>

lemma periodMatch_canonical:
  "isDigit d \<Longrightarrow> isDigit y1 \<Longrightarrow> isDigit y2 \<Longrightarrow>
     periodMatch [CHR ''Q'', d, CHR 0x27, y1, y2] = Some (d, y1, y2)"
  by simp

lemma periodMatch_None:
  "(\<forall>pre d y1 y2 post. s = pre @ [CHR ''Q'', d, CHR 0x27, y1, y2] @ post \<longrightarrow>
       \<not> (isDigit d \<and> isDigit y1 \<and> isDigit y2)) \<Longrightarrow> periodMatch s = None"
proof (induction s rule: periodMatch.induct)
  case (1 q d a y1 y2 rest)
  have here: "\<not> (q = CHR ''Q'' \<and> isDigit d \<and> a = CHR 0x27 \<and> isDigit y1 \<and> isDigit y2)"
    using "1.prems" [rule_format, of "[]" d y1 y2 rest] by auto
  have later: "\<forall>pre d' y1' y2' post.
      d # a # y1 # y2 # rest = pre @ [CHR ''Q'', d', CHR 0x27, y1', y2'] @ post \<longrightarrow>
        \<not> (isDigit d' \<and> isDigit y1' \<and> isDigit y2')"
  proof (intro allI impI)
    fix pre d' y1' y2' post
    assume "d # a # y1 # y2 # rest = pre @ [CHR ''Q'', d', CHR 0x27, y1', y2'] @ post"
    then have "q # d # a # y1 # y2 # rest
                 = (q # pre) @ [CHR ''Q'', d', CHR 0x27, y1', y2'] @ post"
      by simp
    then show "\<not> (isDigit d' \<and> isDigit y1' \<and> isDigit y2')"
      using "1.prems" by blast
  qed
  show ?case using here "1.IH" [OF here later] by simp
qed simp_all

lemma quarterFilter_processQuarter:
  "quarterFilter sq fy (processQuarter b q) = quarterFilter sq fy q"
  by (simp add: quarterFilter_def processQuarter_def)

lemma processedQuarters_alt:
  "processedQuarters b sq fy data = map (processQuarter b) (filter (quarterFilter sq fy) data)"
  by (simp add: processedQuarters_def filter_map comp_def quarterFilter_processQuarter)

subsection \<open>The sample environment\<close>

lemma sampleEnv_fields:
  "scrapeScreener sampleEnv n = (if n = ''Beta'' \<or> n = ''Delta'' then Inr []
          else Inr [\<lparr>quarter = ''Q2'26'', period = ''Q2'26'', rawData = sampleIndicators\<rparr>])"
  "scrapeMoneyControl sampleEnv u tq n = (if u = ''https://www.moneycontrol.com/beta''
          then Inr [\<lparr>quarter = ''Sep '25'', period = ''Q2'26'', indicators = sampleIndicators\<rparr>]
          else Inl ''Error: Request failed with status code 404'')"
  "getMoneyControlUrlFromPerplexity sampleEnv n = (if n = ''Delta''
          then Inr (Some ''https://www.moneycontrol.com/beta'') else Inr None)"
  "generateOutputExcel sampleEnv d = Inr ''xlsx''"
  "dateNow sampleEnv i = 1700000000000 + i"
  "js sampleEnv = stubBuiltins"
  by (simp_all add: sampleEnv_def)

lemma sample_step1_Beta:
  "step1 sampleEnv \<lparr>name = ''Beta'', url = u, moneyControlUrl = m\<rparr>
       \<lparr>quarterlyData = [], calls = []\<rparr>
     = (Some ''Error: No valid data extracted from Screener.in'',
        \<lparr>quarterlyData = [], calls = [ScrapeScreener ''Beta'']\<rparr>)"
  by (simp add: step1_def sampleEnv_fields)

lemma sample_step1_Delta:
  "step1 sampleEnv (mkCompany ''Delta'') \<lparr>quarterlyData = [], calls = []\<rparr>
     = (Some ''Error: No valid data extracted from Screener.in'',
        \<lparr>quarterlyData = [], calls = [ScrapeScreener ''Delta'']\<rparr>)"
  by (simp add: step1_def sampleEnv_fields mkCompany_def)

lemma sample_step3_Delta:
  "fst (step3 sampleEnv 8 (mkCompany ''Delta'')
          \<lparr>quarterlyData = [], calls = [ScrapeScreener ''Delta'']\<rparr>) = None"
  by (simp add: step3_def sampleEnv_fields mkCompany_def
        sampleIndicators_def validRevenueKeys_def isPresent_def)

lemma sample_step1_Alpha:
  "step1 sampleEnv (mkCompany ''Alpha'') \<lparr>quarterlyData = [], calls = []\<rparr>
     = (None,
        \<lparr>quarterlyData =
           [\<lparr>quarter = ''Q2'26'', period = ''Q2'26'', indicators = sampleIndicators\<rparr>],
         calls = [ScrapeScreener ''Alpha'']\<rparr>)"
  by (simp add: step1_def sampleEnv_fields mkCompany_def fromScreener_def
        sampleIndicators_def validRevenueKeys_def isPresent_def)

lemma sample_step1_Gamma:
  "step1 sampleEnv (mkCompany ''Gamma'') \<lparr>quarterlyData = [], calls = []\<rparr>
     = (None,
        \<lparr>quarterlyData =
           [\<lparr>quarter = ''Q2'26'', period = ''Q2'26'', indicators = sampleIndicators\<rparr>],
         calls = [ScrapeScreener ''Gamma'']\<rparr>)"
  by (simp add: step1_def sampleEnv_fields mkCompany_def fromScreener_def
        sampleIndicators_def validRevenueKeys_def isPresent_def)

lemma sample_Alpha_completed:
  "is_Completed (fst (processCompany sampleEnv sq fy (mkCompany ''Alpha'')))"
  by (simp add: processCompany_def sample_step1_Alpha complete_def)

lemma sample_Gamma_completed:
  "is_Completed (fst (processCompany sampleEnv sq fy (mkCompany ''Gamma'')))"
  by (simp add: processCompany_def sample_step1_Gamma complete_def)

lemma sample_betaStale_failed:
  "processCompany sampleEnv [''Q2''] [2026] betaStale =
     (Failed ''All fallback steps failed: Error: No valid data from Perplexity-provided URL'',
      [ScrapeScreener ''Beta'',
       ScrapeMoneyControl ''https://www.moneycontrol.com/old'' 8 ''Beta'',
       GetMoneyControlUrlFromPerplexity ''Beta''])"
  by (simp add: processCompany_def betaStale_def sample_step1_Beta step2_def step3_def
        totalQuarters_def sampleEnv_fields)

subsection \<open>Claims about the orchestrator\<close>

text \<open>
  C1, as amended. For a company whose MoneyControl URL is empty, when step 1 fails
  the orchestrator calls neither MoneyControl nor the URL lookup of step 3: the
  trace of the company holds the Screener call only, and the company fails with the
  error \<open>No data sources available\<close>. The claim as stated, that the orchestrator goes
  on to step 3 before the company can fail, does not hold: the guard on the empty
  URL throws, and the outer \<open>catch\<close> marks the company failed.
\<close>

theorem no_url_fails_after_step1:
  assumes "moneyControlUrl c = ''''"
    and "fst (step1 e c \<lparr>quarterlyData = [], calls = []\<rparr>) = Some step1Error"
  shows "processCompany e sq fy c =
           (Failed (''Error: No data sources available for '' @ name c
              @ ''. Screener failed and no MoneyControl URL configured.''),
            [ScrapeScreener (name c)])"
proof -
  obtain r st where s: "step1 e c \<lparr>quarterlyData = [], calls = []\<rparr> = (r, st)"
    by (cases "step1 e c \<lparr>quarterlyData = [], calls = []\<rparr>")
  have failed: "r = Some step1Error" using assms(2) s by simp
  have only_screener: "calls st = [ScrapeScreener (name c)]"
    using step1_calls [of e c "\<lparr>quarterlyData = [], calls = []\<rparr>"] s by simp
  show ?thesis
    unfolding processCompany_def using s failed only_screener assms(1) by simp
qed

theorem no_url_fails_after_step1_witness:
  "processCompany sampleEnv [''Q2''] [2026] (mkCompany ''Beta'') =
     (Failed ''Error: No data sources available for Beta. Screener failed and no MoneyControl URL configured.'',
      [ScrapeScreener ''Beta''])"
  using no_url_fails_after_step1 [of "mkCompany ''Beta''" sampleEnv
      "''Error: No valid data extracted from Screener.in''" "[''Q2'']" "[2026]"]
    sample_step1_Beta [of "''''" "''''"]
  by (simp add: mkCompany_def)

text \<open>
  The company \<open>Delta\<close> has no URL and nothing on Screener. Step 3 would succeed for it
  (the lookup knows an address that MoneyControl serves), yet the company fails
  after the Screener call alone.
\<close>

theorem step3_after_missing_url_counterexample:
  "moneyControlUrl (mkCompany ''Delta'') = ''''
   \<and> fst (step1 sampleEnv (mkCompany ''Delta'') \<lparr>quarterlyData = [], calls = []\<rparr>) \<noteq> None
   \<and> fst (step3 sampleEnv 8 (mkCompany ''Delta'')
            \<lparr>quarterlyData = [], calls = [ScrapeScreener ''Delta'']\<rparr>) = None
   \<and> processCompany sampleEnv [''Q2''] [2026] (mkCompany ''Delta'') =
       (Failed ''Error: No data sources available for Delta. Screener failed and no MoneyControl URL configured.'',
        [ScrapeScreener ''Delta''])"
  by (simp add: sample_step1_Delta sample_step3_Delta processCompany_def)
     (simp add: mkCompany_def)

text \<open>
  C5. For a company with a MoneyControl URL, when step 1 fails and the MoneyControl
  adapter returns quarters that pass \<open>hasValidData\<close>, the company completes with
  \<open>dataSource = moneycontrol\<close>, and its trace holds the Screener call and the
  MoneyControl call only: the URL lookup of step 3 is not called.
\<close>

theorem moneycontrol_wins:
  assumes "fst (step1 e c \<lparr>quarterlyData = [], calls = []\<rparr>) = Some step1Error"
    and "moneyControlUrl c \<noteq> ''''"
    and "scrapeMoneyControl e (moneyControlUrl c) (totalQuarters sq fy) (name c) = Inr d"
    and "d \<noteq> []"
    and "hasValidData d"
  shows "\<exists>r. processCompany e sq fy c =
               (Completed r,
                [ScrapeScreener (name c),
                 ScrapeMoneyControl (moneyControlUrl c) (totalQuarters sq fy) (name c)])
             \<and> dataSource r = MoneyControl
             \<and> companyName r = name c
             \<and> quarters r = processedQuarters (js e) sq fy d"
proof (cases "step1 e c \<lparr>quarterlyData = [], calls = []\<rparr>")
  case (Pair r st)
  have "calls st = [ScrapeScreener (name c)]"
    using step1_calls [of e c "\<lparr>quarterlyData = [], calls = []\<rparr>"] Pair by simp
  then show ?thesis
    using assms Pair step2_ok [OF assms(3-5), of st]
    by (simp add: processCompany_def complete_def)
qed

theorem moneycontrol_wins_witness:
  "\<exists>r. processCompany sampleEnv [''Q2''] [2026] betaConfigured =
         (Completed r,
          [ScrapeScreener ''Beta'',
           ScrapeMoneyControl ''https://www.moneycontrol.com/beta'' 8 ''Beta''])
       \<and> dataSource r = MoneyControl"
  using moneycontrol_wins [of sampleEnv betaConfigured
      "''Error: No valid data extracted from Screener.in''" "[''Q2'']" "[2026]"
      "[\<lparr>quarter = ''Sep '25'', period = ''Q2'26'', indicators = sampleIndicators\<rparr>]"]
    sample_step1_Beta [of "''''" "''https://www.moneycontrol.com/beta''"]
  by (auto simp: betaConfigured_def sampleEnv_fields totalQuarters_def
        sampleIndicators_def validRevenueKeys_def isPresent_def)

text \<open>
  C6. Through the entry point, every company is built with an empty MoneyControl
  URL, in test mode and from the selected names alike. Hence the trace of every run
  holds Screener calls only, and a processed company for which step 1 fails has
  made the Screener call alone, is among the failed companies and has an error
  entry with the message \<open>No data sources available\<close>.
\<close>

theorem public_entry_no_fallback:
  "(\<forall>cs. companiesToProcess tm tc sc = Some cs \<longrightarrow> (\<forall>c\<in>set cs. moneyControlUrl c = ''''))
   \<and> (\<forall>k\<in>set (trace (orchestrateFinancialDataScraping e sq fy tm tc sc)).
         \<exists>n. k = ScrapeScreener n)
   \<and> (\<forall>cs c step1Error.
         companiesToProcess tm tc sc = Some cs \<and> c \<in> set cs
         \<and> fst (step1 e c \<lparr>quarterlyData = [], calls = []\<rparr>) = Some step1Error \<longrightarrow>
           processCompany e sq fy c =
             (Failed (''Error: No data sources available for '' @ name c
                @ ''. Screener failed and no MoneyControl URL configured.''),
              [ScrapeScreener (name c)])
         \<and> name c \<in> set (failedCompanies (orchestrateFinancialDataScraping e sq fy tm tc sc))
         \<and> (\<exists>ts. \<lparr>company = name c,
                    error = ''Error: No data sources available for '' @ name c
                      @ ''. Screener failed and no MoneyControl URL configured.'',
                    timestamp = ts\<rparr>
                 \<in> set (errors (orchestrateFinancialDataScraping e sq fy tm tc sc))))"
proof (intro conjI allI impI ballI)
  fix cs c
  assume "companiesToProcess tm tc sc = Some cs" "c \<in> set cs"
  then show "moneyControlUrl c = ''''" by (rule companiesToProcess_no_url)
next
  fix k
  assume k: "k \<in> set (trace (orchestrateFinancialDataScraping e sq fy tm tc sc))"
  show "\<exists>n. k = ScrapeScreener n"
  proof (cases "companiesToProcess tm tc sc")
    case None
    then show ?thesis using k by (simp add: orchestrate_None)
  next
    case (Some cs)
    then have "\<forall>c\<in>set cs. moneyControlUrl c = ''''"
      using companiesToProcess_no_url by blast
    then show ?thesis
      using k Some by (auto simp: orchestrate_Some runCompanies_trace_no_url)
  qed
next
  fix cs c step1Error
  assume h: "companiesToProcess tm tc sc = Some cs \<and> c \<in> set cs
         \<and> fst (step1 e c \<lparr>quarterlyData = [], calls = []\<rparr>) = Some step1Error"
  then have u: "moneyControlUrl c = ''''" using companiesToProcess_no_url by blast
  have p: "processCompany e sq fy c =
             (Failed (''Error: No data sources available for '' @ name c
                @ ''. Screener failed and no MoneyControl URL configured.''),
              [ScrapeScreener (name c)])"
    using u h no_url_failure by blast
  have o: "orchestrateFinancialDataScraping e sq fy tm tc sc = runCompanies e sq fy cs"
    using h by (simp add: orchestrate_Some)
  show "processCompany e sq fy c =
             (Failed (''Error: No data sources available for '' @ name c
                @ ''. Screener failed and no MoneyControl URL configured.''),
              [ScrapeScreener (name c)])" by (rule p)
  show "name c \<in> set (failedCompanies (orchestrateFinancialDataScraping e sq fy tm tc sc))"
    unfolding o using failed_company_recorded [OF _ p] h by blast
  show "\<exists>ts. \<lparr>company = name c,
                    error = ''Error: No data sources available for '' @ name c
                      @ ''. Screener failed and no MoneyControl URL configured.'',
                    timestamp = ts\<rparr>
                 \<in> set (errors (orchestrateFinancialDataScraping e sq fy tm tc sc))"
    unfolding o using failed_company_recorded [OF _ p] h by blast
qed

theorem public_entry_no_fallback_witness:
  "trace (orchestrateFinancialDataScraping sampleEnv [''Q2''] [2026] False None
        (Some [''Alpha'', ''Beta'', ''Delta'']))
     = [ScrapeScreener ''Alpha'', ScrapeScreener ''Beta'', ScrapeScreener ''Delta'']
   \<and> ''Beta'' \<in> set (failedCompanies (orchestrateFinancialDataScraping sampleEnv [''Q2''] [2026]
        False None (Some [''Alpha'', ''Beta'', ''Delta''])))
   \<and> processCompany sampleEnv [''Q2''] [2026] (mkCompany ''Beta'') =
       (Failed ''Error: No data sources available for Beta. Screener failed and no MoneyControl URL configured.'',
        [ScrapeScreener ''Beta''])"
proof -
  note r = public_entry_no_fallback [of False None "Some [''Alpha'', ''Beta'', ''Delta'']"
      sampleEnv "[''Q2'']" "[2026]"]
  have c: "companiesToProcess False None (Some [''Alpha'', ''Beta'', ''Delta''])
             = Some [mkCompany ''Alpha'', mkCompany ''Beta'', mkCompany ''Delta'']"
    by (simp add: companiesToProcess_def)
  have s: "fst (step1 sampleEnv (mkCompany ''Beta'') \<lparr>quarterlyData = [], calls = []\<rparr>)
             = Some ''Error: No valid data extracted from Screener.in''"
    using sample_step1_Beta [of "''''" "''''"] by (simp add: mkCompany_def)
  have u: "\<forall>x\<in>set [mkCompany ''Alpha'', mkCompany ''Beta'', mkCompany ''Delta''].
             moneyControlUrl x = []"
    using r c by blast
  have t: "trace (orchestrateFinancialDataScraping sampleEnv [''Q2''] [2026] False None
        (Some [''Alpha'', ''Beta'', ''Delta'']))
     = [ScrapeScreener ''Alpha'', ScrapeScreener ''Beta'', ScrapeScreener ''Delta'']"
    using runCompanies_trace_no_url [OF u] c
    by (simp add: orchestrate_Some mkCompany_def)
  have f: "processCompany sampleEnv [''Q2''] [2026] (mkCompany ''Beta'') =
       (Failed (''Error: No data sources available for '' @ name (mkCompany ''Beta'')
          @ ''. Screener failed and no MoneyControl URL configured.''),
        [ScrapeScreener (name (mkCompany ''Beta''))])
     \<and> name (mkCompany ''Beta'') \<in> set (failedCompanies (orchestrateFinancialDataScraping
        sampleEnv [''Q2''] [2026] False None (Some [''Alpha'', ''Beta'', ''Delta''])))"
    using r [THEN conjunct2, THEN conjunct2, rule_format,
        of "[mkCompany ''Alpha'', mkCompany ''Beta'', mkCompany ''Delta'']" "mkCompany ''Beta''"
           "''Error: No valid data extracted from Screener.in''"] c s
    by simp
  show ?thesis using t f by (simp add: mkCompany_def)
qed

text \<open>
  C7. A failing company does not stop the loop. The result of a run over a list of
  companies holds the CompanyResult of every company that completed, in order; its
  errors are one entry \<open>{company, error, timestamp}\<close> for every company that failed,
  in order, followed by at most one entry of the spreadsheet generator; and
  \<open>success\<close> holds exactly when some company completed. In the witness the second of
  three companies exhausts all three steps.
\<close>

theorem failure_isolation:
  "extractedData (runCompanies e sq fy cs) =
     map (\<lambda>c. result (fst (processCompany e sq fy c)))
       (filter (\<lambda>c. is_Completed (fst (processCompany e sq fy c))) cs)
   \<and> map companyName (extractedData (runCompanies e sq fy cs)) =
       map name (filter (\<lambda>c. is_Completed (fst (processCompany e sq fy c))) cs)
   \<and> (\<exists>excelErrors.
         errors (runCompanies e sq fy cs) =
           map (\<lambda>(i, c). \<lparr>company = name c, error = message (fst (processCompany e sq fy c)),
                            timestamp = dateNow e i\<rparr>)
             (filter (\<lambda>(i, c). \<not> is_Completed (fst (processCompany e sq fy c)))
                (enumerate 0 cs))
           @ excelErrors
       \<and> length excelErrors \<le> 1
       \<and> (\<forall>x\<in>set excelErrors. company x = ''Excel Generation''))
   \<and> failedCompanies (runCompanies e sq fy cs) =
       map name (filter (\<lambda>c. \<not> is_Completed (fst (processCompany e sq fy c))) cs)
   \<and> (success (runCompanies e sq fy cs) \<longleftrightarrow>
        (\<exists>c\<in>set cs. is_Completed (fst (processCompany e sq fy c))))"
proof -
  let ?ok = "\<lambda>c. is_Completed (fst (processCompany e sq fy c))"
  have a: "extractedData (runCompanies e sq fy cs) =
      map (\<lambda>c. result (fst (processCompany e sq fy c))) (filter ?ok cs)"
    by (simp add: extractedData_def runCompanies_fields processAll_allCompanyData emptyRun_def)
  have b: "map companyName (extractedData (runCompanies e sq fy cs)) = map name (filter ?ok cs)"
    unfolding a by (simp add: processCompany_companyName)
  have c: "\<exists>excelErrors.
         errors (runCompanies e sq fy cs) =
           map (\<lambda>(i, c). \<lparr>company = name c, error = message (fst (processCompany e sq fy c)),
                            timestamp = dateNow e i\<rparr>)
             (filter (\<lambda>(i, c). \<not> is_Completed (fst (processCompany e sq fy c)))
                (enumerate 0 cs))
           @ excelErrors
       \<and> length excelErrors \<le> 1
       \<and> (\<forall>x\<in>set excelErrors. company x = ''Excel Generation'')"
    using runCompanies_errors [of e sq fy cs]
    by (simp add: processAll_errors emptyRun_def)
  have d: "failedCompanies (runCompanies e sq fy cs) = map name (filter (\<lambda>c. \<not> ?ok c) cs)"
    by (simp add: runCompanies_fields processAll_failedCompanies emptyRun_def)
  have s: "success (runCompanies e sq fy cs) \<longleftrightarrow> (\<exists>c\<in>set cs. ?ok c)"
    by (simp add: runCompanies_fields processAll_completedCompanies emptyRun_def
          filter_empty_conv)
  show ?thesis using a b c d s by blast
qed

theorem failure_isolation_witness:
  "map companyName (extractedData (runCompanies sampleEnv [''Q2''] [2026]
       [mkCompany ''Alpha'', betaStale, mkCompany ''Gamma''])) = [''Alpha'', ''Gamma'']
   \<and> failedCompanies (runCompanies sampleEnv [''Q2''] [2026]
       [mkCompany ''Alpha'', betaStale, mkCompany ''Gamma'']) = [''Beta'']
   \<and> success (runCompanies sampleEnv [''Q2''] [2026]
       [mkCompany ''Alpha'', betaStale, mkCompany ''Gamma''])
   \<and> (\<exists>excelErrors. errors (runCompanies sampleEnv [''Q2''] [2026]
          [mkCompany ''Alpha'', betaStale, mkCompany ''Gamma'']) =
        \<lparr>company = ''Beta'',
         error = ''All fallback steps failed: Error: No valid data from Perplexity-provided URL'',
         timestamp = 1700000000001\<rparr> # excelErrors
       \<and> length excelErrors \<le> 1)"
  using failure_isolation [of sampleEnv "[''Q2'']" "[2026]"
      "[mkCompany ''Alpha'', betaStale, mkCompany ''Gamma'']"]
    sample_Alpha_completed [of "[''Q2'']" "[2026]"]
    sample_Gamma_completed [of "[''Q2'']" "[2026]"]
    sample_betaStale_failed
  by (auto simp: enumerate_simps mkCompany_def betaStale_def sampleEnv_fields)

text \<open>
  C9, as amended. The quarters of a CompanyResult are the processed records that
  pass the filter. A record whose period is a canonical label \<open>Q\<close>, digit, apostrophe,
  two digits is retained exactly when \<open>Q\<close> with its digit is among the requested
  quarters and 2000 plus its two-digit year is among the requested fiscal years. A
  record whose period holds no such label anywhere is always retained. The claim as
  stated leaves no room for the second case, which the source keeps on purpose.
\<close>

theorem selection_filter_rule:
  "processedQuarters b sq fy data = map (processQuarter b) (filter (quarterFilter sq fy) data)
   \<and> (\<forall>q d y1 y2. q \<in> set data \<and> period q = [CHR ''Q'', d, CHR 0x27, y1, y2]
          \<and> isDigit d \<and> isDigit y1 \<and> isDigit y2 \<longrightarrow>
        (processQuarter b q \<in> set (processedQuarters b sq fy data) \<longleftrightarrow>
           [CHR ''Q'', d] \<in> set sq \<and> 2000 + int (digitVal y1 * 10 + digitVal y2) \<in> set fy))
   \<and> (\<forall>q. q \<in> set data
          \<and> (\<forall>pre d y1 y2 post. period q = pre @ [CHR ''Q'', d, CHR 0x27, y1, y2] @ post \<longrightarrow>
                \<not> (isDigit d \<and> isDigit y1 \<and> isDigit y2)) \<longrightarrow>
        processQuarter b q \<in> set (processedQuarters b sq fy data))"
proof (intro conjI allI impI)
  show "processedQuarters b sq fy data
          = map (processQuarter b) (filter (quarterFilter sq fy) data)"
    by (rule processedQuarters_alt)
next
  fix q d y1 y2
  assume h: "q \<in> set data \<and> period q = [CHR ''Q'', d, CHR 0x27, y1, y2]
          \<and> isDigit d \<and> isDigit y1 \<and> isDigit y2"
  then have m: "periodMatch (period q) = Some (d, y1, y2)"
    using periodMatch_canonical by simp
  have f: "quarterFilter sq fy q \<longleftrightarrow>
      [CHR ''Q'', d] \<in> set sq \<and> 2000 + int (digitVal y1 * 10 + digitVal y2) \<in> set fy"
    using m by (simp add: quarterFilter_def Let_def)
  have "processQuarter b q \<in> set (processedQuarters b sq fy data) \<longleftrightarrow> quarterFilter sq fy q"
    using h by (auto simp: processedQuarters_def quarterFilter_processQuarter)
  then show "processQuarter b q \<in> set (processedQuarters b sq fy data) \<longleftrightarrow>
           [CHR ''Q'', d] \<in> set sq \<and> 2000 + int (digitVal y1 * 10 + digitVal y2) \<in> set fy"
    using f by simp
next
  fix q
  assume h: "q \<in> set data
          \<and> (\<forall>pre d y1 y2 post. period q = pre @ [CHR ''Q'', d, CHR 0x27, y1, y2] @ post \<longrightarrow>
                \<not> (isDigit d \<and> isDigit y1 \<and> isDigit y2))"
  then have "periodMatch (period q) = None" using periodMatch_None by blast
  then have "quarterFilter sq fy q" by (simp add: quarterFilter_def)
  then show "processQuarter b q \<in> set (processedQuarters b sq fy data)"
    using h by (auto simp: processedQuarters_def quarterFilter_processQuarter)
qed

theorem selection_filter_rule_witness:
  "processQuarter stubBuiltins q2fy26
       \<in> set (processedQuarters stubBuiltins [''Q2''] [2026] [q2fy26, q2fy25, ttmQuarter])
   \<and> processQuarter stubBuiltins q2fy25
       \<notin> set (processedQuarters stubBuiltins [''Q2''] [2026] [q2fy26, q2fy25, ttmQuarter])
   \<and> processQuarter stubBuiltins ttmQuarter
       \<in> set (processedQuarters stubBuiltins [''Q2''] [2026] [q2fy26, q2fy25, ttmQuarter])"
proof -
  note r = selection_filter_rule
    [of stubBuiltins "[''Q2'']" "[2026]" "[q2fy26, q2fy25, ttmQuarter]"]
  have a: "processQuarter stubBuiltins q2fy26
       \<in> set (processedQuarters stubBuiltins [''Q2''] [2026] [q2fy26, q2fy25, ttmQuarter])"
    using r [THEN conjunct2, THEN conjunct1, rule_format,
        of q2fy26 "CHR ''2''" "CHR ''2''" "CHR ''6''"]
    by (simp add: q2fy26_def isDigit_def digitVal_def)
  have b: "processQuarter stubBuiltins q2fy25
       \<notin> set (processedQuarters stubBuiltins [''Q2''] [2026] [q2fy26, q2fy25, ttmQuarter])"
    using r [THEN conjunct2, THEN conjunct1, rule_format,
        of q2fy25 "CHR ''2''" "CHR ''2''" "CHR ''5''"]
    by (simp add: q2fy25_def isDigit_def digitVal_def)
  have "\<forall>pre d y1 y2 post. ''TTM'' = pre @ [CHR ''Q'', d, CHR 0x27, y1, y2] @ post \<longrightarrow>
                \<not> (isDigit d \<and> isDigit y1 \<and> isDigit y2)"
    by (auto simp: append_eq_Cons_conv Cons_eq_append_conv)
  then have c: "processQuarter stubBuiltins ttmQuarter
       \<in> set (processedQuarters stubBuiltins [''Q2''] [2026] [q2fy26, q2fy25, ttmQuarter])"
    using r [THEN conjunct2, THEN conjunct2, rule_format, of ttmQuarter]
    by (simp add: ttmQuarter_def)
  show ?thesis using a b c by simp
qed

text \<open>
  With nothing requested, no record can match a requested quarter or fiscal year;
  the record with period \<open>TTM\<close> is in the output all the same.
\<close>

theorem selection_filter_counterexample:
  "map period (processedQuarters stubBuiltins [] [] [ttmQuarter]) = [''TTM'']"
  by (simp add: processedQuarters_def processQuarter_def quarterFilter_def ttmQuarter_def)

end
